theory Spec2Isabelle
  imports Complex_Main "HOL-Library.Multiset"
begin

section \<open>The upcoming-events component of the calendar\<close>

text \<open>
  \<^verbatim>\<open>AddonCalendarUpcomingEventsComponent\<close> keeps several arrays of event objects.
  The arrays share their objects: \<^verbatim>\<open>mergeEvents\<close> writes the \<^verbatim>\<open>deleted\<close> flag into the
  objects of \<^verbatim>\<open>onlineEvents\<close>, and the arrays \<^verbatim>\<open>events\<close> and \<^verbatim>\<open>filteredEvents\<close> built
  from them hold the same objects. The model therefore has an explicit store: an array is
  a list of references, and the store maps a reference to the object it denotes.
\<close>

type_synonym ref = nat

text \<open>
  The fields of \<^verbatim>\<open>AddonCalendarEventToDisplay\<close> that the component reads or writes.
  \<^verbatim>\<open>deleted\<close> and \<^verbatim>\<open>formattedtime\<close> are optional in the source (\<open>None\<close> is
  \<^verbatim>\<open>undefined\<close>). Event ids and times are integers (negative ids are events created
  offline).
\<close>

record calevent =
  ev_id :: int
  timestart :: int
  timeduration :: int
  deleted :: "bool option"
  formattedtime :: "string option"

type_synonym store = "ref \<Rightarrow> calevent"

record calendar_component =
  heap :: store
  filteredEvents :: "ref list"
  loaded :: bool
  events :: "ref list"
  onlineEvents :: "ref list"
  offlineEvents :: "ref list"
  deletedEvents :: "int list"
  lookAhead :: int
  timeFormat :: "string option"

datatype error = Rejected string | RejectedNull | TypeError

text \<open>
  Modelled from the spec: \<^verbatim>\<open>CoreConstants.SECONDS_DAY\<close> is not among the sources. The
  look-ahead is counted in days, so the constant is the number of seconds of a day.
\<close>

definition SECONDS_DAY :: int where
  "SECONDS_DAY = 86400"

text \<open>
  Modelled from the spec: \<^verbatim>\<open>AddonCalendarHelper.sortEvents\<close> is not among the sources. The
  spec only says that event lists have a sort order, so the order \<open>le\<close> (the calendar event
  sort order, on event objects) is a parameter and \<open>sortEvents\<close> sorts the array by it: an
  insertion sort, which keeps the elements and their multiplicities.
\<close>

fun insertEvent :: "('a \<Rightarrow> 'a \<Rightarrow> bool) \<Rightarrow> 'a \<Rightarrow> 'a list \<Rightarrow> 'a list" where
  "insertEvent le x [] = [x]"
| "insertEvent le x (y # ys) = (if le x y then x # y # ys else y # insertEvent le x ys)"

definition sortEvents :: "(calevent \<Rightarrow> calevent \<Rightarrow> bool) \<Rightarrow> store \<Rightarrow> ref list \<Rightarrow> ref list" where
  "sortEvents le h rs = foldr (insertEvent (\<lambda>a b. le (h a) (h b))) rs []"

text \<open>
  The \<^verbatim>\<open>forEach\<close> of \<^verbatim>\<open>mergeEvents\<close>: every object of the array gets
  \<^verbatim>\<open>event.deleted = this.deletedEvents.indexOf(event.id) != -1\<close>.
\<close>

definition markDeleted :: "int list \<Rightarrow> ref list \<Rightarrow> store \<Rightarrow> store" where
  "markDeleted del rs h =
     fold (\<lambda>r g. g(r := (g r)\<lparr>deleted := Some (ev_id (g r) \<in> set del)\<rparr>)) rs h"

text \<open>
  \<^verbatim>\<open>(event.timestart >= start || event.timestart + event.timeduration >= start)
     && event.timestart <= end\<close>, with \<open>start\<close> and \<open>end\<close> in seconds. \<^verbatim>\<open>Date.now() / 1000\<close>
  is not an integer, so both bounds are rationals.
\<close>

definition inPeriod :: "rat \<Rightarrow> rat \<Rightarrow> calevent \<Rightarrow> bool" where
  "inPeriod start endt e \<longleftrightarrow>
     (of_int (timestart e) \<ge> start \<or> of_int (timestart e + timeduration e) \<ge> start)
     \<and> of_int (timestart e) \<le> endt"

text \<open>
  \<^verbatim>\<open>mergeEvents\<close>. \<open>now_ms\<close> is the value of \<^verbatim>\<open>Date.now()\<close> (milliseconds). The function
  returns the merged array and the store, whose objects it may have written.
\<close>

definition mergeEvents ::
  "(calevent \<Rightarrow> calevent \<Rightarrow> bool) \<Rightarrow> int \<Rightarrow> calendar_component \<Rightarrow> ref list \<times> store" where
  "mergeEvents le now_ms s =
     (if offlineEvents s = [] \<and> deletedEvents s = [] then (onlineEvents s, heap s)
      else
        let start = of_int now_ms / 1000;
            endt = start + of_int (SECONDS_DAY * lookAhead s);
            h1 = (if deletedEvents s \<noteq> []
                  then markDeleted (deletedEvents s) (onlineEvents s) (heap s)
                  else heap s);
            result = (if offlineEvents s \<noteq> []
                      then filter (\<lambda>r. find (\<lambda>ev. ev_id (h1 ev) = ev_id (h1 r)) (offlineEvents s) = None)
                             (onlineEvents s)
                      else onlineEvents s);
            periodOfflineEvents = filter (\<lambda>r. inPeriod start endt (h1 r)) (offlineEvents s)
        in (sortEvents le h1 (result @ periodOfflineEvents), h1))"

text \<open>
  \<^verbatim>\<open>filterEvents\<close> stores what \<^verbatim>\<open>AddonCalendarHelper.getFilteredEvents\<close> returns; that
  helper is not among the sources and is a parameter (it reads the events and returns an
  array of them).
\<close>

definition filterEvents :: "(store \<Rightarrow> ref list \<Rightarrow> ref list) \<Rightarrow> calendar_component \<Rightarrow> calendar_component" where
  "filterEvents getFilteredEvents s = s\<lparr>filteredEvents := getFilteredEvents (heap s) (events s)\<rparr>"

text \<open>
  \<^verbatim>\<open>fetchEvents\<close>. \<open>upcoming\<close> is the outcome of \<^verbatim>\<open>getUpcomingEvents\<close> after
  \<^verbatim>\<open>formatEventData\<close>: a rejection, or the array of the (formatted) event objects, which
  are in the store. When the call is rejected the \<^verbatim>\<open>async\<close> function stops there.
  \<^verbatim>\<open>formatEventTime\<close> (a parameter) is started for every event of \<^verbatim>\<open>events\<close> before any
  of its results is stored; a rejected one stores nothing. Scheduling the notifications
  does not touch the component.
\<close>

definition fetchEvents ::
  "(calevent \<Rightarrow> calevent \<Rightarrow> bool) \<Rightarrow> (store \<Rightarrow> ref list \<Rightarrow> ref list) \<Rightarrow>
   (calevent \<Rightarrow> string option \<Rightarrow> error + string) \<Rightarrow> int \<Rightarrow> error + ref list \<Rightarrow>
   calendar_component \<Rightarrow> calendar_component" where
  "fetchEvents le getFilteredEvents formatEventTime now_ms upcoming s =
     (case upcoming of
        Inl err \<Rightarrow> s
      | Inr result_events \<Rightarrow>
          let s1 = s\<lparr>onlineEvents := result_events\<rparr>;
              merged = mergeEvents le now_ms s1;
              s2 = s1\<lparr>heap := snd merged, events := fst merged\<rparr>;
              s3 = filterEvents getFilteredEvents s2;
              h3 = (\<lambda>r. if r \<in> set (events s3)
                         then (case formatEventTime (heap s3 r) (timeFormat s3) of
                                 Inl err \<Rightarrow> heap s3 r
                               | Inr time \<Rightarrow> (heap s3 r)\<lparr>formattedtime := Some time\<rparr>)
                         else heap s3 r)
          in s3\<lparr>heap := h3\<rparr>)"

text \<open>
  \<^verbatim>\<open>undeleteEvent\<close>: \<^verbatim>\<open>find\<close> gives the first online event with the id, whose flag is
  cleared.
\<close>

definition undeleteEvent :: "int \<Rightarrow> calendar_component \<Rightarrow> calendar_component" where
  "undeleteEvent eventId s =
     (case find (\<lambda>r. ev_id (heap s r) = eventId) (onlineEvents s) of
        None \<Rightarrow> s
      | Some r \<Rightarrow> s\<lparr>heap := (heap s)(r := (heap s r)\<lparr>deleted := Some False\<rparr>)\<rparr>)"

text \<open>
  The observer of \<^verbatim>\<open>UNDELETED_EVENT_EVENT\<close>. The notification's data may be missing, and
  so may its \<^verbatim>\<open>eventId\<close>; \<^verbatim>\<open>!data.eventId\<close> also holds for the id 0.
  \<^verbatim>\<open>indexOf\<close> and \<^verbatim>\<open>splice(index, 1)\<close> remove the first occurrence of the id.
\<close>

record updatedEventEvent =
  eventId :: "int option"

definition undeleteEventObserver :: "updatedEventEvent option \<Rightarrow> calendar_component \<Rightarrow> calendar_component" where
  "undeleteEventObserver data s =
     (case data of
        None \<Rightarrow> s
      | Some d \<Rightarrow>
          (case eventId d of
             None \<Rightarrow> s
           | Some i \<Rightarrow>
               if i = 0 then s
               else
                 let s1 = undeleteEvent i s
                 in if i \<in> set (deletedEvents s1)
                    then s1\<lparr>deletedEvents := remove1 i (deletedEvents s1)\<rparr>
                    else s1))"

text \<open>
  The look-ahead window of the claims, in the spec's words: the instants from now to now
  plus \<open>lookAhead\<close> days. An event's time span runs from its start to its start plus its
  duration, and it intersects the window when the two share an instant.
\<close>

definition spanIntersectsWindow :: "int \<Rightarrow> int \<Rightarrow> calevent \<Rightarrow> bool" where
  "spanIntersectsWindow now_ms days e \<longleftrightarrow>
     (\<exists>t::rat. of_int (timestart e) \<le> t \<and> t \<le> of_int (timestart e + timeduration e)
        \<and> of_int now_ms / 1000 \<le> t \<and> t \<le> of_int now_ms / 1000 + of_int (86400 * days))"

subsection \<open>A concrete component, for the examples\<close>

text \<open>
  An order to instantiate the calendar event sort order with: by start time, then by
  duration.
\<close>

definition exampleOrder :: "calevent \<Rightarrow> calevent \<Rightarrow> bool" where
  "exampleOrder a b \<longleftrightarrow>
     timestart a < timestart b \<or> (timestart a = timestart b \<and> timeduration a \<le> timeduration b)"

definition mkEvent :: "int \<Rightarrow> int \<Rightarrow> int \<Rightarrow> calevent" where
  "mkEvent i ts d =
     \<lparr>ev_id = i, timestart = ts, timeduration = d, deleted = None, formattedtime = None\<rparr>"

text \<open>
  Objects 0 and 1 are online events (ids 1 and 2, the later one first), object 2 is the
  offline edit of event 2, and object 3 is an event created offline that starts after the
  window.
\<close>

definition exampleStore :: store where
  "exampleStore =
     (\<lambda>r. if r = 0 then mkEvent 1 2000 60
          else if r = 1 then mkEvent 2 1000 0
          else if r = 2 then mkEvent 2 3000 600
          else if r = 3 then mkEvent (- 1) 200000 0
          else mkEvent 0 0 0)"

definition exampleComponent :: calendar_component where
  "exampleComponent =
     \<lparr>heap = exampleStore, filteredEvents = [], loaded = False, events = [],
      onlineEvents = [], offlineEvents = [2, 3], deletedEvents = [1], lookAhead = 1,
      timeFormat = None\<rparr>"

text \<open>The same component with nothing edited or deleted offline.\<close>

definition exampleOnlineOnly :: calendar_component where
  "exampleOnlineOnly = exampleComponent\<lparr>offlineEvents := [], deletedEvents := []\<rparr>"

text \<open>The example component after \<^verbatim>\<open>fetchEvents\<close> has loaded the online events 0 and 1.\<close>

definition exampleLoaded :: calendar_component where
  "exampleLoaded =
     fetchEvents exampleOrder (\<lambda>h rs. rs) (\<lambda>e tf. Inr ''10:00'') 500000 (Inr [0, 1])
       exampleComponent"

section \<open>The email signup page\<close>

text \<open>
  \<^verbatim>\<open>CoreLoginEmailSignupPage\<close>. What the page does to the user interface and the network is
  recorded as a trace of effects, in the order of the calls. Values sent to a web service are
  strings or numbers (\<open>WNaN\<close> is what \<^verbatim>\<open>parseInt\<close> gives for a text that is no number,
  \<open>WUndefined\<close> a missing value).
\<close>

datatype wsvalue = WStr string | WNum int | WNaN | WUndefined

datatype effect =
    PreventDefault
  | StopPropagation
  | ScrollToInputError
  | ShowErrorModal string bool
  | ShowErrorModalDefault error string bool
  | ShowModalLoading string bool
  | CallAjax string "(string \<times> wsvalue) list"
  | TriggerFormSubmittedEvent
  | ShowAlert string string
  | NavPop
  | ModalDismiss

record signupSettings =
  recaptchapublickey :: "string option"

text \<open>
  The state of the page that \<^verbatim>\<open>create\<close> and \<^verbatim>\<open>verifyAge\<close> read or write. The validity of
  a form is computed by the form library from its controls and is a field here. The
  \<^verbatim>\<open>country\<close> control of the age form is \<^verbatim>\<open>countryControl\<close>, the one of the signup form is
  \<^verbatim>\<open>signUpCountryControl\<close>, which does not exist before \<^verbatim>\<open>completeFormGroup\<close> has run.
\<close>

record signup_page =
  signupFormValid :: bool
  username :: string
  password :: string
  firstname :: string
  lastname :: string
  email :: string
  city :: string
  siteUrl :: string
  launchurl :: "string option"
  settings :: "signupSettings option"
  recaptcharesponse :: string
  ageFormValid :: bool
  age :: wsvalue
  countryControl :: string
  signUpCountryControl :: "string option"
  isMinor :: bool
  ageDigitalConsentVerification :: "bool option"

record signupUserResult =
  success :: bool
  warnings :: "string list"

text \<open>
  The services the page calls, none of them among the sources, are parameters:
  what \<^verbatim>\<open>scrollToInputError\<close> finds, the text helpers, the translation of a key with its
  \<^verbatim>\<open>$a\<close> argument, and the outcomes of the two web-service calls.
\<close>

record signup_env =
  scrollToInputError :: bool
  trim :: "string \<Rightarrow> string"
  toLowerCase :: "string \<Rightarrow> string"
  cleanTags :: "string \<Rightarrow> string"
  determineService :: "string \<Rightarrow> string"
  prepareForSSOLogin :: "string \<Rightarrow> string \<Rightarrow> string \<Rightarrow> string"
  instant :: "string \<Rightarrow> string \<Rightarrow> string"
  parseInt :: "string \<Rightarrow> int option"
  signupUser :: "(string \<times> wsvalue) list \<Rightarrow> error + signupUserResult"
  isMinorCall :: "(string \<times> wsvalue) list \<Rightarrow> error + bool"

text \<open>\<^verbatim>\<open>this.settings?.recaptchapublickey\<close> as a condition: the key is there and not empty.\<close>

definition recaptchaDeclared :: "signup_page \<Rightarrow> bool" where
  "recaptchaDeclared p =
     (case settings p of
        None \<Rightarrow> False
      | Some st \<Rightarrow> (case recaptchapublickey st of None \<Rightarrow> False | Some k \<Rightarrow> k \<noteq> []))"

text \<open>The parameters \<^verbatim>\<open>create\<close> builds for \<^verbatim>\<open>auth_email_signup_user\<close>.\<close>

definition signupParams :: "signup_env \<Rightarrow> signup_page \<Rightarrow> (string \<times> wsvalue) list" where
  "signupParams env p =
     [(''username'', WStr (toLowerCase env (trim env (username p)))),
      (''password'', WStr (password p)),
      (''firstname'', WStr (cleanTags env (firstname p))),
      (''lastname'', WStr (cleanTags env (lastname p))),
      (''email'', WStr (trim env (email p))),
      (''city'', WStr (cleanTags env (city p))),
      (''country'', (case signUpCountryControl p of None \<Rightarrow> WUndefined | Some c \<Rightarrow> WStr c))]
     @ (case launchurl p of
          None \<Rightarrow> []
        | Some l \<Rightarrow> if l = [] then []
                    else [(''redirect'',
                           WStr (prepareForSSOLogin env (siteUrl p) (determineService env (siteUrl p)) l))])
     @ (if recaptchaDeclared p \<and> recaptcharesponse p \<noteq> []
        then [(''recaptcharesponse'', WStr (recaptcharesponse p))] else [])"

text \<open>
  \<^verbatim>\<open>create\<close>. It writes no field of the page, so the model returns the trace only.
\<close>

definition create :: "signup_env \<Rightarrow> signup_page \<Rightarrow> effect list" where
  "create env p =
     [PreventDefault, StopPropagation] @
     (if \<not> signupFormValid p \<or> (recaptchaDeclared p \<and> recaptcharesponse p = [])
      then ScrollToInputError #
             (if \<not> scrollToInputError env then [ShowErrorModal ''core.errorinvalidform'' True] else [])
      else
        ShowModalLoading ''core.sending'' True #
        CallAjax ''auth_email_signup_user'' (signupParams env p) #
        (case signupUser env (signupParams env p) of
           Inl err \<Rightarrow> [ShowErrorModalDefault err ''core.login.usernotaddederror'' True]
         | Inr result \<Rightarrow>
             if success result
             then [TriggerFormSubmittedEvent,
                   ShowAlert (instant env ''core.success'' [])
                     (instant env ''core.login.emailconfirmsent'' (trim env (email p))),
                   NavPop]
             else (case warnings result of
                     [] \<Rightarrow> [ShowErrorModal ''core.login.usernotaddederror'' True]
                   | w # ws \<Rightarrow>
                       [ShowErrorModal
                          (if w = ''incorrect-captcha-sol''
                           then instant env ''core.login.recaptchaincorrect'' [] else w) False]))
        @ [ModalDismiss])"

text \<open>
  \<^verbatim>\<open>verifyAge\<close>. \<^verbatim>\<open>params\<close> is the value object of the age form, and
  \<^verbatim>\<open>params.age = parseInt(params.age, 10)\<close> writes the number into it.
\<close>

definition parseAge :: "signup_env \<Rightarrow> wsvalue \<Rightarrow> wsvalue" where
  "parseAge env v =
     (case v of
        WStr a \<Rightarrow> (case parseInt env a of None \<Rightarrow> WNaN | Some n \<Rightarrow> WNum n)
      | WNum n \<Rightarrow> WNum n
      | WNaN \<Rightarrow> WNaN
      | WUndefined \<Rightarrow> WNaN)"

definition ageParams :: "signup_env \<Rightarrow> signup_page \<Rightarrow> (string \<times> wsvalue) list" where
  "ageParams env p = [(''age'', parseAge env (age p)), (''country'', WStr (countryControl p))]"

definition ageErrorMessage :: string where
  "ageErrorMessage = ''There was an error verifying your age, please try again using the browser.''"

definition verifyAge :: "signup_env \<Rightarrow> signup_page \<Rightarrow> signup_page \<times> effect list" where
  "verifyAge env p =
     (if \<not> ageFormValid p
      then (p, [PreventDefault, StopPropagation, ShowErrorModal ''core.errorinvalidform'' True])
      else
        let p1 = p\<lparr>age := parseAge env (age p)\<rparr>;
            before = [PreventDefault, StopPropagation, ShowModalLoading ''core.sending'' True,
                      CallAjax ''core_auth_is_minor'' (ageParams env p)]
        in (case isMinorCall env (ageParams env p) of
              Inl err \<Rightarrow> (p1, before @ [ShowErrorModal ageErrorMessage False, ModalDismiss])
            | Inr status \<Rightarrow>
                if \<not> status
                then
                  (if countryControl p1 \<noteq> [] \<and> signUpCountryControl p1 = None
                   then (p1, before @ [TriggerFormSubmittedEvent,
                                       ShowErrorModal ageErrorMessage False, ModalDismiss])
                   else
                     (p1\<lparr>signUpCountryControl :=
                           (if countryControl p1 \<noteq> [] then Some (countryControl p1)
                            else signUpCountryControl p1),
                         ageDigitalConsentVerification := Some False\<rparr>,
                      before @ [TriggerFormSubmittedEvent, ModalDismiss]))
                else (p1\<lparr>isMinor := True\<rparr>, before @ [TriggerFormSubmittedEvent, ModalDismiss])))"

subsection \<open>Concrete pages, for the examples\<close>

definition exampleEnv :: signup_env where
  "exampleEnv =
     \<lparr>scrollToInputError = True, trim = (\<lambda>x. x), toLowerCase = (\<lambda>x. x), cleanTags = (\<lambda>x. x),
      determineService = (\<lambda>u. ''moodle_mobile_app''),
      prepareForSSOLogin = (\<lambda>u sv l. l), instant = (\<lambda>k a. k),
      parseInt = (\<lambda>a. if a = ''12'' then Some 12 else None),
      signupUser = (\<lambda>ps. Inr \<lparr>success = True, warnings = []\<rparr>),
      isMinorCall = (\<lambda>ps. Inl (Rejected ''network''))\<rparr>"

definition examplePage :: signup_page where
  "examplePage =
     \<lparr>signupFormValid = True, username = ''ann'', password = ''pw'', firstname = ''Ann'',
      lastname = ''Lee'', email = ''ann@example.org'', city = ''Perth'',
      siteUrl = ''https://school.example'', launchurl = None,
      settings = Some \<lparr>recaptchapublickey = Some ''key''\<rparr>, recaptcharesponse = ''token'',
      ageFormValid = True, age = WStr ''12'', countryControl = ''AU'',
      signUpCountryControl = Some ''ES'', isMinor = False,
      ageDigitalConsentVerification = Some True\<rparr>"

section \<open>The site plugins helper\<close>

text \<open>
  \<^verbatim>\<open>CoreSitePluginsHelperProvider\<close>. The manifest of a plugin is JSON, and the helper tests
  parsed values for truthiness and counts their keys, so parsed values are modelled as they
  are in JavaScript. Where the helper uses a value as a string (names, URLs) the field is a
  string, optional when it may be missing.
\<close>

datatype jsval =
    JUndefined
  | JNull
  | JBool bool
  | JNum rat
  | JStr string
  | JArr "jsval list"
  | JObj "(string \<times> jsval) list"

text \<open>The truthiness of a value, as \<^verbatim>\<open>if (x)\<close>, \<^verbatim>\<open>!x\<close> and \<^verbatim>\<open>x && y\<close> test it.\<close>

fun truthy :: "jsval \<Rightarrow> bool" where
  "truthy JUndefined = False"
| "truthy JNull = False"
| "truthy (JBool b) = b"
| "truthy (JNum n) = (n \<noteq> 0)"
| "truthy (JStr s) = (s \<noteq> [])"
| "truthy (JArr xs) = True"
| "truthy (JObj kvs) = True"

text \<open>
  \<^verbatim>\<open>Object.keys(x).length\<close>: the keys of an object, the indices of an array and the
  indices of a string's characters; a number or a boolean has none. The helper only counts
  the keys of truthy values, so \<^verbatim>\<open>null\<close> and \<^verbatim>\<open>undefined\<close> never get here.
\<close>

fun keyCount :: "jsval \<Rightarrow> nat" where
  "keyCount (JObj kvs) = length (remdups (map fst kvs))"
| "keyCount (JArr xs) = length xs"
| "keyCount (JStr s) = length s"
| "keyCount v = 0"

text \<open>Reading a property of a value that is neither \<^verbatim>\<open>null\<close> nor \<^verbatim>\<open>undefined\<close>.\<close>

fun getProp :: "jsval \<Rightarrow> string \<Rightarrow> jsval" where
  "getProp (JObj kvs) k = (case map_of kvs k of None \<Rightarrow> JUndefined | Some v \<Rightarrow> v)"
| "getProp v k = JUndefined"

text \<open>\<^verbatim>\<open>s.replace(pat, '')\<close> with a string pattern: the first occurrence is removed.\<close>

fun replaceFirst :: "string \<Rightarrow> string \<Rightarrow> string" where
  "replaceFirst pat [] = []"
| "replaceFirst pat (c # cs) =
     (if take (length pat) (c # cs) = pat then drop (length pat) (c # cs)
      else c # replaceFirst pat cs)"

record plugin =
  component :: string
  addon :: string
  handlers :: "string option"
  parsedHandlers :: jsval

text \<open>A plugin as the web service \<^verbatim>\<open>tool_mobile_get_plugins_supporting_mobile\<close> delivers it.\<close>

record wsPlugin =
  ws_component :: string
  ws_addon :: string
  ws_handlers :: "string option"

definition received :: "wsPlugin \<Rightarrow> plugin" where
  "received q =
     \<lparr>component = ws_component q, addon = ws_addon q, handlers = ws_handlers q,
      parsedHandlers = JUndefined\<rparr>"

record styles =
  url :: "string option"
  version :: jsval

text \<open>
  The schema of one handler, an entry of the parsed manifest. The source's field
  \<^verbatim>\<open>method\<close> is \<open>hmethod\<close> here.
\<close>

record handlerSchema =
  delegate :: "string option"
  displaydata :: jsval
  init :: "string option"
  hmethod :: "string option"
  styles :: "styles option"
  offlinefunctions :: jsval
  methodTemplates :: jsval
  methodJSResult :: jsval

text \<open>What \<^verbatim>\<open>getContent\<close> returns, with the result of its script once that has run.\<close>

record contentResult =
  javascript :: jsval
  templates :: jsval
  jsResult :: jsval

record site =
  site_id :: string
  site_url :: string

record poolFile =
  file_url :: string

text \<open>
  The handler objects the helper creates, with the arguments of their constructors. A
  prefixed title is the pair of the prefix and the title it is put in front of. The profile
  field handler carries the script result whose functions override its own.
\<close>

datatype handler =
    MainMenuHandler string "string \<times> jsval" plugin handlerSchema contentResult
  | ModuleHandler string string handlerSchema
  | ModulePrefetchHandler string string string handlerSchema
  | UserProfileHandler string "string \<times> jsval" plugin handlerSchema contentResult
  | CourseOptionHandler string "string \<times> jsval" plugin handlerSchema contentResult
  | CourseFormatHandler string string handlerSchema
  | UserProfileFieldHandler string string jsval

record handlerData =
  hdPlugin :: plugin
  hdHandlerName :: string
  hdHandlerSchema :: handlerSchema
  hdInitResult :: contentResult

text \<open>
  What the helper acts on. A delegate is the list of the handlers passed to its
  \<^verbatim>\<open>registerHandler\<close>; the file pool and the document are the lists of the calls made to
  them (removals and downloads by URL, \<^verbatim>\<open>style\<close> elements by id with their code).
\<close>

record world =
  mainMenuDelegate :: "handler list"
  moduleDelegate :: "handler list"
  prefetchDelegate :: "handler list"
  userDelegate :: "handler list"
  courseOptionsDelegate :: "handler list"
  courseFormatDelegate :: "handler list"
  profileFieldDelegate :: "handler list"
  sitePluginHandlers :: "string \<rightharpoonup> handlerData"
  removedFiles :: "string list"
  downloadedUrls :: "string list"
  httpGets :: "string list"
  styleEls :: "(string \<times> string) list"
  treatedCSS :: "(string \<times> string option \<times> string \<times> jsval) list"

text \<open>
  The providers the helper calls are not among the sources; what they answer is a
  parameter. \<open>siteIdAfterContent\<close> is the current site id at the time the content has arrived,
  \<open>httpGet\<close> gives the text of the response when it is a string.
\<close>

record plugin_env =
  getCurrentSiteId :: string
  siteIdAfterContent :: string
  getSite :: "string option \<Rightarrow> error + site"
  getHandlerUniqueName :: "plugin \<Rightarrow> string \<Rightarrow> string"
  isAbsoluteURL :: "string \<Rightarrow> bool"
  concatenatePaths :: "string \<Rightarrow> string \<Rightarrow> string"
  getFilesByComponent :: "string \<Rightarrow> string \<Rightarrow> error + poolFile list"
  downloadUrl :: "string \<Rightarrow> string \<Rightarrow> error + string"
  httpGet :: "string \<Rightarrow> error + string option"
  getContent :: "string \<Rightarrow> string \<Rightarrow> bool \<Rightarrow> error + contentResult"
  executeJavascript :: "contentResult \<Rightarrow> error + jsval"
  isGetContentAvailable :: "site \<Rightarrow> bool"
  isFeatureDisabled :: "site \<Rightarrow> string \<Rightarrow> bool"
  readPlugins :: "site \<Rightarrow> error + wsPlugin list"
  parseJSON :: "string \<Rightarrow> jsval \<Rightarrow> jsval"

subsection \<open>Styles\<close>

text \<open>\<^verbatim>\<open>handlerSchema.styles && handlerSchema.styles.url\<close>.\<close>

definition stylesUrl :: "handlerSchema \<Rightarrow> string option" where
  "stylesUrl sc = (case styles sc of None \<Rightarrow> None | Some sty \<Rightarrow> url sty)"

text \<open>The URL after \<^verbatim>\<open>downloadStyles\<close> has made it absolute.\<close>

definition currentStylesUrl :: "plugin_env \<Rightarrow> site \<Rightarrow> handlerSchema \<Rightarrow> string option" where
  "currentStylesUrl env st sc =
     (case stylesUrl sc of
        None \<Rightarrow> None
      | Some u \<Rightarrow>
          if u \<noteq> [] \<and> \<not> isAbsoluteURL env u then Some (concatenatePaths env (site_url st) u)
          else Some u)"

text \<open>
  \<^verbatim>\<open>downloadStyles\<close>: the outcome of the promise and the world after it. The removal of
  the unused files does not block the rest and its errors are ignored. The component and the
  version that the file pool is given with a download are constants of the call and are left
  out of its record.
\<close>

definition downloadStyles ::
  "plugin_env \<Rightarrow> plugin \<Rightarrow> string \<Rightarrow> handlerSchema \<Rightarrow> string option \<Rightarrow> world \<Rightarrow> (error + string) \<times> world" where
  "downloadStyles env pl handlerName sc siteId w =
     (case getSite env siteId of
        Inl err \<Rightarrow> (Inl err, w)
      | Inr st \<Rightarrow>
          let current = currentStylesUrl env st sc;
              uniqueName = getHandlerUniqueName env pl handlerName;
              componentId = uniqueName @ ''#main'';
              w1 = (case getFilesByComponent env (site_id st) componentId of
                      Inl err \<Rightarrow> w
                    | Inr files \<Rightarrow>
                        w\<lparr>removedFiles := removedFiles w
                             @ map file_url (filter (\<lambda>f. Some (file_url f) \<noteq> current) files)\<rparr>)
          in (case current of
                None \<Rightarrow> (Inr [], w1)
              | Some u \<Rightarrow>
                  if u = [] then (Inr [], w1)
                  else
                    let w2 = w1\<lparr>downloadedUrls := downloadedUrls w1 @ [u]\<rparr>
                    in (case downloadUrl env (site_id st) u of
                          Inl err \<Rightarrow> (Inl err, w2)
                        | Inr localUrl \<Rightarrow>
                            let w3 = w2\<lparr>httpGets := httpGets w2 @ [localUrl]\<rparr>
                            in (case httpGet env localUrl of
                                  Inl err \<Rightarrow> (Inl err, w3)
                                | Inr None \<Rightarrow> (Inl RejectedNull, w3)
                                | Inr (Some txt) \<Rightarrow> (Inr txt, w3)))))"

text \<open>
  \<^verbatim>\<open>loadStyles\<close> adds the \<^verbatim>\<open>style\<close> element and has the file pool treat the code
  (errors ignored).
\<close>

definition loadStyles ::
  "plugin_env \<Rightarrow> plugin \<Rightarrow> string \<Rightarrow> string option \<Rightarrow> string \<Rightarrow> jsval \<Rightarrow> string option \<Rightarrow>
   world \<Rightarrow> world" where
  "loadStyles env pl handlerName fileUrl cssCode vers siteId w =
     (let sid = (case siteId of None \<Rightarrow> getCurrentSiteId env
                 | Some i \<Rightarrow> if i = [] then getCurrentSiteId env else i);
          uniqueName = getHandlerUniqueName env pl handlerName
      in w\<lparr>styleEls := styleEls w @ [(''siteplugin-'' @ uniqueName, cssCode)],
           treatedCSS := treatedCSS w @ [(sid, fileUrl, uniqueName, vers)]\<rparr>)"

subsection \<open>Running a method of the plugin\<close>

definition executeMethodAndJS :: "plugin_env \<Rightarrow> plugin \<Rightarrow> string \<Rightarrow> bool \<Rightarrow> error + contentResult" where
  "executeMethodAndJS env pl meth isInit =
     (case getContent env (component pl) meth isInit of
        Inl err \<Rightarrow> Inl err
      | Inr result \<Rightarrow>
          if \<not> truthy (javascript result) \<or> siteIdAfterContent env \<noteq> getCurrentSiteId env
          then Inr result
          else (case executeJavascript env result of
                  Inl err \<Rightarrow> Inl err
                | Inr js \<Rightarrow> Inr (result\<lparr>jsResult := js\<rparr>)))"

text \<open>\<^verbatim>\<open>Promise.resolve({})\<close> when the handler has no init method.\<close>

definition emptyResult :: contentResult where
  "emptyResult = \<lparr>javascript = JUndefined, templates = JUndefined, jsResult = JUndefined\<rparr>"

definition executeHandlerInit :: "plugin_env \<Rightarrow> plugin \<Rightarrow> handlerSchema \<Rightarrow> error + contentResult" where
  "executeHandlerInit env pl sc =
     (case init sc of
        None \<Rightarrow> Inr emptyResult
      | Some m \<Rightarrow> if m = [] then Inr emptyResult else executeMethodAndJS env pl m True)"

subsection \<open>Fetching the plugins\<close>

definition isSitePluginEnabled :: "plugin_env \<Rightarrow> plugin \<Rightarrow> site \<Rightarrow> bool \<times> plugin" where
  "isSitePluginEnabled env pl st =
     (case handlers pl of
        None \<Rightarrow> (False, pl)
      | Some h \<Rightarrow>
          if \<not> isFeatureDisabled env st (''sitePlugin_'' @ component pl @ ''_'' @ addon pl) \<and> h \<noteq> []
          then
            let pl1 = (if \<not> truthy (parsedHandlers pl)
                       then pl\<lparr>parsedHandlers := parseJSON env h JNull\<rparr> else pl)
            in (truthy (parsedHandlers pl1) \<and> keyCount (parsedHandlers pl1) \<noteq> 0, pl1)
          else (False, pl))"

text \<open>
  \<^verbatim>\<open>fetchSitePlugins\<close>: the outcome of the promise and the web services the site was asked
  to read.
\<close>

definition fetchSitePlugins :: "plugin_env \<Rightarrow> string option \<Rightarrow> (error + plugin list) \<times> string list" where
  "fetchSitePlugins env siteId =
     (case getSite env siteId of
        Inl err \<Rightarrow> (Inl err, [])
      | Inr st \<Rightarrow>
          if \<not> isGetContentAvailable env st then (Inr [], [])
          else (case readPlugins env st of
                  Inl err \<Rightarrow> (Inl err, [''tool_mobile_get_plugins_supporting_mobile''])
                | Inr qs \<Rightarrow>
                    (Inr (map snd (filter fst (map (\<lambda>q. isSitePluginEnabled env (received q) st) qs))),
                     [''tool_mobile_get_plugins_supporting_mobile''])))"

subsection \<open>Registering a handler\<close>

definition getPrefixForStrings :: "string \<Rightarrow> string" where
  "getPrefixForStrings a = (if a \<noteq> [] then ''plugin.'' @ a @ ''.'' else [])"

definition getPrefixedString :: "string \<Rightarrow> jsval \<Rightarrow> string \<times> jsval" where
  "getPrefixedString a k = (getPrefixForStrings a, k)"

text \<open>
  The functions that register in one delegate return the string that identifies the
  handler, or nothing (\<^verbatim>\<open>return;\<close>).
\<close>

definition registerCourseFormatHandler ::
  "plugin_env \<Rightarrow> plugin \<Rightarrow> string \<Rightarrow> handlerSchema \<Rightarrow> contentResult \<Rightarrow> world \<Rightarrow> string option \<times> world" where
  "registerCourseFormatHandler env pl handlerName sc initResult w =
     (let uniqueName = getHandlerUniqueName env pl handlerName;
          formatName = replaceFirst ''format_'' (component pl)
      in (Some formatName,
          w\<lparr>courseFormatDelegate :=
               courseFormatDelegate w @ [CourseFormatHandler uniqueName formatName sc]\<rparr>))"

definition registerCourseOptionHandler ::
  "plugin_env \<Rightarrow> plugin \<Rightarrow> string \<Rightarrow> handlerSchema \<Rightarrow> contentResult \<Rightarrow> world \<Rightarrow> string option \<times> world" where
  "registerCourseOptionHandler env pl handlerName sc initResult w =
     (if \<not> truthy (displaydata sc) then (None, w)
      else
        let uniqueName = getHandlerUniqueName env pl handlerName;
            prefixedTitle = getPrefixedString (addon pl) (getProp (displaydata sc) ''title'')
        in (Some uniqueName,
            w\<lparr>courseOptionsDelegate :=
                 courseOptionsDelegate w
                 @ [CourseOptionHandler uniqueName prefixedTitle pl sc initResult]\<rparr>))"

definition registerMainMenuHandler ::
  "plugin_env \<Rightarrow> plugin \<Rightarrow> string \<Rightarrow> handlerSchema \<Rightarrow> contentResult \<Rightarrow> world \<Rightarrow> string option \<times> world" where
  "registerMainMenuHandler env pl handlerName sc initResult w =
     (if \<not> truthy (displaydata sc) then (None, w)
      else
        let uniqueName = getHandlerUniqueName env pl handlerName;
            prefixedTitle = getPrefixedString (addon pl) (getProp (displaydata sc) ''title'')
        in (Some uniqueName,
            w\<lparr>mainMenuDelegate :=
                 mainMenuDelegate w @ [MainMenuHandler uniqueName prefixedTitle pl sc initResult]\<rparr>))"

definition registerModuleHandler ::
  "plugin_env \<Rightarrow> plugin \<Rightarrow> string \<Rightarrow> handlerSchema \<Rightarrow> contentResult \<Rightarrow> world \<Rightarrow> string option \<times> world" where
  "registerModuleHandler env pl handlerName sc initResult w =
     (if \<not> truthy (displaydata sc) then (None, w)
      else
        let uniqueName = getHandlerUniqueName env pl handlerName;
            modName = replaceFirst ''mod_'' (component pl);
            w1 = w\<lparr>moduleDelegate := moduleDelegate w @ [ModuleHandler uniqueName modName sc]\<rparr>;
            w2 = (if truthy (offlinefunctions sc) \<and> keyCount (offlinefunctions sc) \<noteq> 0
                  then w1\<lparr>prefetchDelegate :=
                            prefetchDelegate w1
                            @ [ModulePrefetchHandler (component pl) uniqueName modName sc]\<rparr>
                  else w1)
        in (Some modName, w2))"

definition registerUserProfileHandler ::
  "plugin_env \<Rightarrow> plugin \<Rightarrow> string \<Rightarrow> handlerSchema \<Rightarrow> contentResult \<Rightarrow> world \<Rightarrow> string option \<times> world" where
  "registerUserProfileHandler env pl handlerName sc initResult w =
     (if \<not> truthy (displaydata sc) then (None, w)
      else
        let uniqueName = getHandlerUniqueName env pl handlerName;
            prefixedTitle = getPrefixedString (addon pl) (getProp (displaydata sc) ''title'')
        in (Some uniqueName,
            w\<lparr>userDelegate :=
                 userDelegate w @ [UserProfileHandler uniqueName prefixedTitle pl sc initResult]\<rparr>))"

text \<open>
  The profile field handler runs the main method first and writes two fields of the
  schema, so the function also returns the schema. A rejected method is caught and logged,
  and the promise then resolves with nothing.
\<close>

definition registerUserProfileFieldHandler ::
  "plugin_env \<Rightarrow> plugin \<Rightarrow> string \<Rightarrow> handlerSchema \<Rightarrow> contentResult \<Rightarrow> world \<Rightarrow>
   string option \<times> handlerSchema \<times> world" where
  "registerUserProfileFieldHandler env pl handlerName sc initResult w =
     (case hmethod sc of
        None \<Rightarrow> (None, sc, w)
      | Some m \<Rightarrow>
          if m = [] then (None, sc, w)
          else (case executeMethodAndJS env pl m False of
                  Inl err \<Rightarrow> (None, sc, w)
                | Inr result \<Rightarrow>
                    let uniqueName = getHandlerUniqueName env pl handlerName;
                        fieldType = replaceFirst ''profilefield_'' (component pl);
                        sc1 = sc\<lparr>methodTemplates := templates result,
                                 methodJSResult := jsResult result\<rparr>;
                        fieldHandler =
                          UserProfileFieldHandler uniqueName fieldType
                            (if truthy (jsResult result) then jsResult result else JUndefined)
                    in (Some fieldType, sc1,
                        w\<lparr>profileFieldDelegate := profileFieldDelegate w @ [fieldHandler]\<rparr>)))"

text \<open>
  The \<^verbatim>\<open>switch\<close> of \<^verbatim>\<open>registerHandler\<close> on \<^verbatim>\<open>handlerSchema.delegate\<close>: the identifier the
  chosen function returned, the schema and the world.
\<close>

definition registerInDelegate ::
  "plugin_env \<Rightarrow> plugin \<Rightarrow> string \<Rightarrow> handlerSchema \<Rightarrow> contentResult \<Rightarrow> world \<Rightarrow>
   string option \<times> handlerSchema \<times> world" where
  "registerInDelegate env pl handlerName sc result w =
     (case delegate sc of
        None \<Rightarrow> (None, sc, w)
      | Some d \<Rightarrow>
          if d = ''CoreMainMenuDelegate''
          then (case registerMainMenuHandler env pl handlerName sc result w of (u, w1) \<Rightarrow> (u, sc, w1))
          else if d = ''CoreCourseModuleDelegate''
          then (case registerModuleHandler env pl handlerName sc result w of (u, w1) \<Rightarrow> (u, sc, w1))
          else if d = ''CoreUserDelegate''
          then (case registerUserProfileHandler env pl handlerName sc result w of (u, w1) \<Rightarrow> (u, sc, w1))
          else if d = ''CoreCourseOptionsDelegate''
          then (case registerCourseOptionHandler env pl handlerName sc result w of (u, w1) \<Rightarrow> (u, sc, w1))
          else if d = ''CoreCourseFormatDelegate''
          then (case registerCourseFormatHandler env pl handlerName sc result w of (u, w1) \<Rightarrow> (u, sc, w1))
          else if d = ''CoreUserProfileFieldDelegate''
          then registerUserProfileFieldHandler env pl handlerName sc result w
          else (None, sc, w))"

text \<open>
  Modelled from the spec: \<^verbatim>\<open>CoreSitePluginsProvider.setSitePluginHandler\<close> is not among the
  sources. The spec describes the registry as a map that handlers are stored in, so the call
  puts the data under the given name.
\<close>

definition setSitePluginHandler :: "string \<Rightarrow> handlerData \<Rightarrow> world \<Rightarrow> world" where
  "setSitePluginHandler name d w = w\<lparr>sitePluginHandlers := (sitePluginHandlers w)(name \<mapsto> d)\<rparr>"

text \<open>
  \<^verbatim>\<open>registerHandler\<close>. An error of \<^verbatim>\<open>downloadStyles\<close> is caught and leaves no code. When
  the init method is rejected \<^verbatim>\<open>Promise.all\<close> is, and the final \<^verbatim>\<open>catch\<close> logs it; so it
  does when \<^verbatim>\<open>handlerSchema.styles.url\<close> is read and there are no styles.
\<close>

definition registerHandler :: "plugin_env \<Rightarrow> plugin \<Rightarrow> string \<Rightarrow> handlerSchema \<Rightarrow> world \<Rightarrow> world" where
  "registerHandler env pl handlerName sc w =
     (let siteId = getCurrentSiteId env;
          dl = downloadStyles env pl handlerName sc (Some siteId) w;
          cssCode = (case fst dl of Inl err \<Rightarrow> None | Inr code \<Rightarrow> Some code);
          w1 = snd dl
      in (case executeHandlerInit env pl sc of
            Inl err \<Rightarrow> w1
          | Inr result \<Rightarrow>
              (case (case cssCode of
                       None \<Rightarrow> Inr w1
                     | Some code \<Rightarrow>
                         if code = [] then Inr w1
                         else (case styles sc of
                                 None \<Rightarrow> Inl TypeError
                               | Some sty \<Rightarrow>
                                   Inr (loadStyles env pl handlerName (url sty) code (version sty)
                                          (Some siteId) w1)))
               of Inl err \<Rightarrow> w1
                | Inr w2 \<Rightarrow>
                    (case registerInDelegate env pl handlerName sc result w2 of
                       (uniqueName, sc1, w3) \<Rightarrow>
                         (case uniqueName of
                            None \<Rightarrow> w3
                          | Some u \<Rightarrow>
                              if u = [] then w3
                              else setSitePluginHandler u
                                     \<lparr>hdPlugin = pl, hdHandlerName = handlerName,
                                      hdHandlerSchema = sc1, hdInitResult = result\<rparr> w3)))))"

text \<open>The six delegates of the \<^verbatim>\<open>switch\<close>, by the string that selects them.\<close>

definition delegateOf :: "string \<Rightarrow> world \<Rightarrow> handler list option" where
  "delegateOf d w =
     (if d = ''CoreMainMenuDelegate'' then Some (mainMenuDelegate w)
      else if d = ''CoreCourseModuleDelegate'' then Some (moduleDelegate w)
      else if d = ''CoreUserDelegate'' then Some (userDelegate w)
      else if d = ''CoreCourseOptionsDelegate'' then Some (courseOptionsDelegate w)
      else if d = ''CoreCourseFormatDelegate'' then Some (courseFormatDelegate w)
      else if d = ''CoreUserProfileFieldDelegate'' then Some (profileFieldDelegate w)
      else None)"

subsection \<open>A concrete site and plugin, for the examples\<close>

definition exampleSite :: site where
  "exampleSite = \<lparr>site_id = ''s1'', site_url = ''https://school.example''\<rparr>"

text \<open>The manifest \<^verbatim>\<open>{"view":{}}\<close>, and the JSON text of the string \<^verbatim>\<open>"ab"\<close>.\<close>

definition objectManifest :: string where
  "objectManifest = ''{'' @ [CHR 0x22] @ ''view'' @ [CHR 0x22] @ '':{}}''"

definition stringManifest :: string where
  "stringManifest = [CHR 0x22] @ ''ab'' @ [CHR 0x22]"

definition exampleResponse :: "wsPlugin list" where
  "exampleResponse =
     [\<lparr>ws_component = ''mod_certificate'', ws_addon = ''mod_certificate'',
       ws_handlers = Some objectManifest\<rparr>,
      \<lparr>ws_component = ''local_text'', ws_addon = ''local_text'', ws_handlers = Some stringManifest\<rparr>,
      \<lparr>ws_component = ''local_none'', ws_addon = ''local_none'', ws_handlers = None\<rparr>,
      \<lparr>ws_component = ''local_empty'', ws_addon = ''local_empty'', ws_handlers = Some ''{}''\<rparr>]"

text \<open>
  The unique name is the addon and the handler name joined by an underscore; the parser
  knows the three manifests of the example response and gives the default otherwise.
\<close>

definition examplePluginEnv :: plugin_env where
  "examplePluginEnv =
     \<lparr>getCurrentSiteId = ''s1'', siteIdAfterContent = ''s1'',
      getSite = (\<lambda>i. Inr exampleSite),
      getHandlerUniqueName = (\<lambda>pl n. addon pl @ ''_'' @ n),
      isAbsoluteURL = (\<lambda>u. take 8 u = ''https://''),
      concatenatePaths = (\<lambda>a b. a @ ''/'' @ b),
      getFilesByComponent =
        (\<lambda>i c. Inr [\<lparr>file_url = ''https://school.example/old.css''\<rparr>,
                     \<lparr>file_url = ''https://school.example/styles.css''\<rparr>]),
      downloadUrl = (\<lambda>i u. Inr ''file:///styles.css''),
      httpGet = (\<lambda>u. Inr (Some ''body {}'')),
      getContent = (\<lambda>c m i. Inr emptyResult),
      executeJavascript = (\<lambda>r. Inr JUndefined),
      isGetContentAvailable = (\<lambda>st. True),
      isFeatureDisabled = (\<lambda>st f. False),
      readPlugins = (\<lambda>st. Inr exampleResponse),
      parseJSON = (\<lambda>j d. if j = objectManifest then JObj [(''view'', JObj [])]
                         else if j = stringManifest then JStr ''ab''
                         else if j = ''{}'' then JObj []
                         else d)\<rparr>"

definition examplePlugin :: plugin where
  "examplePlugin =
     \<lparr>component = ''mod_certificate'', addon = ''mod_certificate'',
      handlers = Some objectManifest, parsedHandlers = JObj [(''view'', JObj [])]\<rparr>"

definition exampleSchema :: handlerSchema where
  "exampleSchema =
     \<lparr>delegate = Some ''CoreCourseModuleDelegate'',
      displaydata = JObj [(''title'', JStr ''pluginname'')],
      init = None, hmethod = Some ''mobile_view'',
      styles = Some \<lparr>url = Some ''styles.css'', version = JNum 1\<rparr>,
      offlinefunctions = JObj [(''mobile_view'', JArr [])],
      methodTemplates = JUndefined, methodJSResult = JUndefined\<rparr>"

definition emptyWorld :: world where
  "emptyWorld =
     \<lparr>mainMenuDelegate = [], moduleDelegate = [], prefetchDelegate = [], userDelegate = [],
      courseOptionsDelegate = [], courseFormatDelegate = [], profileFieldDelegate = [],
      sitePluginHandlers = Map.empty, removedFiles = [], downloadedUrls = [], httpGets = [],
      styleEls = [], treatedCSS = []\<rparr>"

subsection \<open>The statements of the claims about the helper\<close>

text \<open>
  Two worlds have the same registries when the seven delegates and the map of the site
  plugin handlers are the same in both.
\<close>

definition sameRegistries :: "world \<Rightarrow> world \<Rightarrow> bool" where
  "sameRegistries w w' \<longleftrightarrow>
     mainMenuDelegate w' = mainMenuDelegate w \<and> moduleDelegate w' = moduleDelegate w
     \<and> prefetchDelegate w' = prefetchDelegate w \<and> userDelegate w' = userDelegate w
     \<and> courseOptionsDelegate w' = courseOptionsDelegate w
     \<and> courseFormatDelegate w' = courseFormatDelegate w
     \<and> profileFieldDelegate w' = profileFieldDelegate w
     \<and> sitePluginHandlers w' = sitePluginHandlers w"

text \<open>
  What \<^verbatim>\<open>registerHandler\<close> requires before it registers a handler in the delegate named
  \<open>d\<close>: the init method has not failed, and the schema has the data the function of that
  delegate checks for (\<^verbatim>\<open>displaydata\<close>; nothing for a course format; a method that runs
  for a profile field).
\<close>

definition requiredDataPresent :: "plugin_env \<Rightarrow> plugin \<Rightarrow> handlerSchema \<Rightarrow> string \<Rightarrow> bool" where
  "requiredDataPresent env pl sc d \<longleftrightarrow>
     (\<exists>r. executeHandlerInit env pl sc = Inr r)
     \<and> (if d = ''CoreMainMenuDelegate'' \<or> d = ''CoreCourseModuleDelegate''
            \<or> d = ''CoreUserDelegate'' \<or> d = ''CoreCourseOptionsDelegate''
         then truthy (displaydata sc)
         else if d = ''CoreCourseFormatDelegate'' then True
         else if d = ''CoreUserProfileFieldDelegate''
         then (\<exists>m res. hmethod sc = Some m \<and> m \<noteq> [] \<and> executeMethodAndJS env pl m False = Inr res)
         else False)"

text \<open>
  A parsed manifest that \<^verbatim>\<open>isSitePluginEnabled\<close> accepts: a truthy value with at least one
  key, that is an object, an array or a string that is not empty. \<open>enabledSitePlugin\<close> is the
  condition of the amended claim C3 on a plugin of the response, and \<open>withParsedHandlers\<close>
  is that plugin with its manifest parsed, as the helper returns it.
\<close>

definition hasOwnKeys :: "jsval \<Rightarrow> bool" where
  "hasOwnKeys v = (case v of JObj kvs \<Rightarrow> kvs \<noteq> [] | JArr xs \<Rightarrow> xs \<noteq> [] | JStr s \<Rightarrow> s \<noteq> [] | _ \<Rightarrow> False)"

definition enabledSitePlugin :: "plugin_env \<Rightarrow> site \<Rightarrow> wsPlugin \<Rightarrow> bool" where
  "enabledSitePlugin env st q \<longleftrightarrow>
     \<not> isFeatureDisabled env st (''sitePlugin_'' @ ws_component q @ ''_'' @ ws_addon q)
     \<and> (\<exists>h. ws_handlers q = Some h \<and> h \<noteq> [] \<and> hasOwnKeys (parseJSON env h JNull))"

definition withParsedHandlers :: "plugin_env \<Rightarrow> wsPlugin \<Rightarrow> plugin" where
  "withParsedHandlers env q =
     (received q)\<lparr>parsedHandlers := (case ws_handlers q of None \<Rightarrow> JUndefined | Some h \<Rightarrow> parseJSON env h JNull)\<rparr>"


section \<open>Properties of the upcoming-events component\<close>

subsection \<open>Sorting, marking and the window\<close>

lemma mset_insertEvent: "mset (insertEvent le x xs) = add_mset x (mset xs)"
  by (induction xs) auto

lemma mset_sortEvents: "mset (sortEvents le h rs) = mset rs"
  unfolding sortEvents_def by (induction rs) (auto simp: mset_insertEvent)

lemma set_insertEvent: "set (insertEvent le x xs) = insert x (set xs)"
  by (induction xs) auto

lemma sorted_insertEvent:
  assumes tot: "\<And>a b. le a b \<or> le b a" and tr: "\<And>a b c. le a b \<Longrightarrow> le b c \<Longrightarrow> le a c"
  shows "sorted_wrt le xs \<Longrightarrow> sorted_wrt le (insertEvent le x xs)"
proof (induction xs)
  case Nil
  then show ?case by simp
next
  case (Cons y ys)
  show ?case
  proof (cases "le x y")
    case True
    with Cons.prems tr show ?thesis by auto
  next
    case False
    with tot have "le y x" by blast
    with Cons False show ?thesis by (auto simp: set_insertEvent)
  qed
qed

lemma sorted_sortEvents:
  assumes tot: "\<And>a b. le a b \<or> le b a" and tr: "\<And>a b c. le a b \<Longrightarrow> le b c \<Longrightarrow> le a c"
  shows "sorted_wrt (\<lambda>a b. le (h a) (h b)) (sortEvents le h rs)"
  unfolding sortEvents_def
proof (induction rs)
  case Nil
  show ?case by simp
next
  case (Cons r rs)
  have "sorted_wrt (\<lambda>a b. le (h a) (h b))
          (insertEvent (\<lambda>a b. le (h a) (h b)) r (foldr (insertEvent (\<lambda>a b. le (h a) (h b))) rs []))"
    by (rule sorted_insertEvent) (use tot tr Cons.IH in blast)+
  then show ?case by simp
qed

lemma markDeleted_apply:
  "markDeleted del rs h r =
     (if r \<in> set rs then (h r)\<lparr>deleted := Some (ev_id (h r) \<in> set del)\<rparr> else h r)"
proof (induction rs arbitrary: h)
  case Nil
  show ?case by (simp add: markDeleted_def)
next
  case (Cons a rs)
  let ?h = "h(a := (h a)\<lparr>deleted := Some (ev_id (h a) \<in> set del)\<rparr>)"
  have "markDeleted del (a # rs) h = markDeleted del rs ?h"
    by (simp only: markDeleted_def fold_simps)
  then show ?case by (simp add: Cons.IH)
qed

lemma spanIntersectsWindow_iff:
  "spanIntersectsWindow now_ms days e \<longleftrightarrow>
     0 \<le> timeduration e \<and> 0 \<le> days
     \<and> (of_int (timestart e) :: rat) \<le> of_int now_ms / 1000 + of_int (86400 * days)
     \<and> of_int now_ms / 1000 \<le> (of_int (timestart e + timeduration e) :: rat)"
  (is "?L \<longleftrightarrow> ?R")
proof
  assume ?L
  then obtain t :: rat where t: "of_int (timestart e) \<le> t" "t \<le> of_int (timestart e + timeduration e)"
     "of_int now_ms / 1000 \<le> t" "t \<le> of_int now_ms / 1000 + of_int (86400 * days)"
    unfolding spanIntersectsWindow_def by blast
  from t(1,2) have "(of_int (timestart e) :: rat) \<le> of_int (timestart e + timeduration e)" by linarith
  then have d: "0 \<le> timeduration e" by simp
  from t(3,4) have "(0::rat) \<le> of_int (86400 * days)" by linarith
  then have "0 \<le> 86400 * days" by (simp only: of_int_0_le_iff)
  then have "0 \<le> days" by simp
  with d t show ?R by auto
next
  assume r: ?R
  let ?t = "max (of_int (timestart e)) (of_int now_ms / 1000) :: rat"
  from r have "(0::rat) \<le> of_int (86400 * days)" by (simp only: of_int_0_le_iff) simp
  with r have "of_int (timestart e) \<le> ?t \<and> ?t \<le> of_int (timestart e + timeduration e)
        \<and> of_int now_ms / 1000 \<le> ?t \<and> ?t \<le> of_int now_ms / 1000 + of_int (86400 * days)"
    by (auto simp: max_def)
  then show ?L unfolding spanIntersectsWindow_def by blast
qed

lemma inPeriod_iff_span:
  assumes "0 \<le> timeduration e" "0 \<le> days"
  shows "inPeriod (of_int now_ms / 1000) (of_int now_ms / 1000 + of_int (SECONDS_DAY * days)) e
         \<longleftrightarrow> spanIntersectsWindow now_ms days e"
  using assms unfolding inPeriod_def spanIntersectsWindow_iff SECONDS_DAY_def
  by auto

lemma markDeleted_fields:
  "ev_id (markDeleted del rs h r) = ev_id (h r)"
  "timestart (markDeleted del rs h r) = timestart (h r)"
  "timeduration (markDeleted del rs h r) = timeduration (h r)"
  by (simp_all add: markDeleted_apply)

lemma inPeriod_markDeleted:
  "inPeriod a b (markDeleted del rs h r) = inPeriod a b (h r)"
  by (simp add: inPeriod_def markDeleted_fields)

lemma mergeEvents_store:
  "snd (mergeEvents le now_ms s) =
     (if deletedEvents s = [] then heap s
      else markDeleted (deletedEvents s) (onlineEvents s) (heap s))"
  by (simp add: mergeEvents_def Let_def)

lemma mergeEvents_mset:
  "mset (fst (mergeEvents le now_ms s)) =
     mset (filter (\<lambda>r. ev_id (heap s r) \<notin> (\<lambda>ev. ev_id (heap s ev)) ` set (offlineEvents s))
             (onlineEvents s))
     + mset (filter (\<lambda>r. inPeriod (of_int now_ms / 1000)
                        (of_int now_ms / 1000 + of_int (SECONDS_DAY * lookAhead s)) (heap s r))
               (offlineEvents s))"
proof (cases "offlineEvents s = [] \<and> deletedEvents s = []")
  case True
  then show ?thesis by (simp add: mergeEvents_def)
next
  case False
  define h1 where "h1 = snd (mergeEvents le now_ms s)"
  have ids: "ev_id (h1 r) = ev_id (heap s r)" for r
    by (simp add: h1_def mergeEvents_store markDeleted_fields)
  have per: "inPeriod a b (h1 r) = inPeriod a b (heap s r)" for a b r
    by (simp add: h1_def mergeEvents_store inPeriod_markDeleted)
  have h1: "h1 = (if deletedEvents s \<noteq> [] then markDeleted (deletedEvents s) (onlineEvents s) (heap s) else heap s)"
    by (simp add: h1_def mergeEvents_store)
  have keep: "(find (\<lambda>ev. ev_id (h1 ev) = ev_id (h1 r)) (offlineEvents s) = None)
        = (ev_id (heap s r) \<notin> (\<lambda>ev. ev_id (heap s ev)) ` set (offlineEvents s))" for r
    by (auto simp: find_None_iff ids image_iff)
  have "fst (mergeEvents le now_ms s) =
      sortEvents le h1
        ((if offlineEvents s \<noteq> []
          then filter (\<lambda>r. find (\<lambda>ev. ev_id (h1 ev) = ev_id (h1 r)) (offlineEvents s) = None) (onlineEvents s)
          else onlineEvents s)
         @ filter (\<lambda>r. inPeriod (of_int now_ms / 1000)
                        (of_int now_ms / 1000 + of_int (SECONDS_DAY * lookAhead s)) (h1 r)) (offlineEvents s))"
    using False unfolding h1 by (simp add: mergeEvents_def Let_def)
  then show ?thesis
    by (simp add: mset_sortEvents keep per)
qed

subsection \<open>Merging online and offline events\<close>

text \<open>
  Claim C5. \<^verbatim>\<open>mergeEvents\<close> returns the online events whose id is not the id of an
  offline event, together with exactly the offline events whose time span intersects the
  window from now to now plus \<open>lookAhead\<close> days (as a multiset: sorting keeps every element).
  When the list of deleted events is not empty, every online event gets its \<^verbatim>\<open>deleted\<close>
  flag set exactly when its id is in that list; no other object is written. With no offline
  and no deleted events the online array is returned as it is and the store is unchanged.
  Durations and the look-ahead are not negative.
\<close>

theorem mergeEvents_merges:
  assumes dur: "\<forall>r \<in> set (offlineEvents s). 0 \<le> timeduration (heap s r)"
      and la: "0 \<le> lookAhead s"
  shows "mset (fst (mergeEvents le now_ms s)) =
           mset (filter (\<lambda>r. ev_id (heap s r) \<notin> (\<lambda>ev. ev_id (heap s ev)) ` set (offlineEvents s))
                   (onlineEvents s))
           + mset (filter (\<lambda>r. spanIntersectsWindow now_ms (lookAhead s) (heap s r)) (offlineEvents s))
       \<and> (deletedEvents s \<noteq> [] \<longrightarrow>
            (\<forall>r \<in> set (onlineEvents s).
               snd (mergeEvents le now_ms s) r =
                 (heap s r)\<lparr>deleted := Some (ev_id (heap s r) \<in> set (deletedEvents s))\<rparr>))
       \<and> (\<forall>r. r \<notin> set (onlineEvents s) \<or> deletedEvents s = [] \<longrightarrow>
              snd (mergeEvents le now_ms s) r = heap s r)
       \<and> (offlineEvents s = [] \<and> deletedEvents s = [] \<longrightarrow>
            mergeEvents le now_ms s = (onlineEvents s, heap s))"
proof -
  have "filter (\<lambda>r. inPeriod (of_int now_ms / 1000)
                        (of_int now_ms / 1000 + of_int (SECONDS_DAY * lookAhead s)) (heap s r))
               (offlineEvents s)
      = filter (\<lambda>r. spanIntersectsWindow now_ms (lookAhead s) (heap s r)) (offlineEvents s)"
    using dur la by (intro filter_cong refl inPeriod_iff_span) auto
  then have a: "mset (fst (mergeEvents le now_ms s)) =
           mset (filter (\<lambda>r. ev_id (heap s r) \<notin> (\<lambda>ev. ev_id (heap s ev)) ` set (offlineEvents s))
                   (onlineEvents s))
           + mset (filter (\<lambda>r. spanIntersectsWindow now_ms (lookAhead s) (heap s r)) (offlineEvents s))"
    by (simp add: mergeEvents_mset)
  have b: "deletedEvents s \<noteq> [] \<longrightarrow>
            (\<forall>r \<in> set (onlineEvents s).
               snd (mergeEvents le now_ms s) r =
                 (heap s r)\<lparr>deleted := Some (ev_id (heap s r) \<in> set (deletedEvents s))\<rparr>)"
    by (simp add: mergeEvents_store markDeleted_apply)
  have c: "\<forall>r. r \<notin> set (onlineEvents s) \<or> deletedEvents s = [] \<longrightarrow>
              snd (mergeEvents le now_ms s) r = heap s r"
    by (auto simp: mergeEvents_store markDeleted_apply)
  have d: "offlineEvents s = [] \<and> deletedEvents s = [] \<longrightarrow>
            mergeEvents le now_ms s = (onlineEvents s, heap s)"
    by (simp add: mergeEvents_def)
  from a b c d show ?thesis by blast
qed

text \<open>
  The example component: event 2 was edited offline, so of the online events only object 0
  stays, flagged as deleted; of the offline events only object 2 lies in the window.
\<close>

theorem mergeEvents_merges_witness:
  "mset (fst (mergeEvents exampleOrder 500000 (exampleComponent\<lparr>onlineEvents := [0, 1]\<rparr>))) = mset [0, 2]
   \<and> deleted (snd (mergeEvents exampleOrder 500000 (exampleComponent\<lparr>onlineEvents := [0, 1]\<rparr>)) 0) = Some True
   \<and> deleted (snd (mergeEvents exampleOrder 500000 (exampleComponent\<lparr>onlineEvents := [0, 1]\<rparr>)) 1) = Some False
   \<and> mergeEvents exampleOrder 500000 (exampleOnlineOnly\<lparr>onlineEvents := [0, 1]\<rparr>) = ([0, 1], exampleStore)"
  using mergeEvents_merges [of "exampleComponent\<lparr>onlineEvents := [0, 1]\<rparr>" exampleOrder 500000]
        mergeEvents_merges [of "exampleOnlineOnly\<lparr>onlineEvents := [0, 1]\<rparr>" exampleOrder 500000]
  by (simp add: exampleComponent_def exampleOnlineOnly_def exampleStore_def mkEvent_def
      spanIntersectsWindow_iff)

subsection \<open>The sort order of the stored list\<close>

lemma fetchEvents_events:
  "events (fetchEvents le gf fmt now_ms (Inr rs) s) = fst (mergeEvents le now_ms (s\<lparr>onlineEvents := rs\<rparr>))"
  by (simp add: fetchEvents_def filterEvents_def Let_def)

lemma fetchEvents_heap:
  "heap (fetchEvents le gf fmt now_ms (Inr rs) s) r =
     (let h = snd (mergeEvents le now_ms (s\<lparr>onlineEvents := rs\<rparr>))
      in if r \<in> set (fst (mergeEvents le now_ms (s\<lparr>onlineEvents := rs\<rparr>)))
         then (case fmt (h r) (timeFormat s) of
                 Inl err \<Rightarrow> h r
               | Inr time \<Rightarrow> (h r)\<lparr>formattedtime := Some time\<rparr>)
         else h r)"
  by (simp add: fetchEvents_def filterEvents_def Let_def split: sum.split)

lemma fetchEvents_order:
  assumes ins: "\<And>a b t. le (a\<lparr>formattedtime := t\<rparr>) b = le a b \<and> le a (b\<lparr>formattedtime := t\<rparr>) = le a b"
  shows "le (heap (fetchEvents le gf fmt now_ms (Inr rs) s) a) (heap (fetchEvents le gf fmt now_ms (Inr rs) s) b)
       = le (snd (mergeEvents le now_ms (s\<lparr>onlineEvents := rs\<rparr>)) a)
            (snd (mergeEvents le now_ms (s\<lparr>onlineEvents := rs\<rparr>)) b)"
  by (simp add: fetchEvents_heap Let_def ins split: sum.split)

lemma mergeEvents_sorted:
  assumes tot: "\<And>a b. le a b \<or> le b a" and tr: "\<And>a b c. le a b \<Longrightarrow> le b c \<Longrightarrow> le a c"
      and ne: "offlineEvents s \<noteq> [] \<or> deletedEvents s \<noteq> []"
  shows "sorted_wrt (\<lambda>a b. le (snd (mergeEvents le now_ms s) a) (snd (mergeEvents le now_ms s) b))
           (fst (mergeEvents le now_ms s))"
proof -
  obtain xs where "fst (mergeEvents le now_ms s) = sortEvents le (snd (mergeEvents le now_ms s)) xs"
    using ne by (auto simp: mergeEvents_def Let_def)
  then show ?thesis
    using sorted_sortEvents [of le, OF tot tr] by simp
qed

text \<open>
  Claim C6 as stated fails: with nothing edited or deleted offline, \<^verbatim>\<open>mergeEvents\<close> returns
  the online array in the order the server gave, and \<^verbatim>\<open>fetchEvents\<close> stores it unsorted.
\<close>

theorem events_sorted_counterexample:
  "\<not> sorted_wrt exampleOrder
        (map (heap (fetchEvents exampleOrder (\<lambda>h rs. rs) (\<lambda>e tf. Inr ''10:00'') 500000 (Inr [0, 1]) exampleOnlineOnly))
             (events (fetchEvents exampleOrder (\<lambda>h rs. rs) (\<lambda>e tf. Inr ''10:00'') 500000 (Inr [0, 1]) exampleOnlineOnly)))"
  by (simp add: fetchEvents_def mergeEvents_def Let_def filterEvents_def exampleOnlineOnly_def
      exampleComponent_def exampleStore_def exampleOrder_def mkEvent_def)

text \<open>
  Claim C6, amended. For a calendar event sort order that is total and transitive and does
  not read \<^verbatim>\<open>formattedtime\<close>: when \<^verbatim>\<open>fetchEvents\<close> succeeds and there is an offline
  event or a deleted event, the list it stores in \<^verbatim>\<open>events\<close> is sorted. When there is
  neither, \<^verbatim>\<open>events\<close> is the online list in the order received, sorted exactly when
  that list was.
\<close>

theorem fetchEvents_sorted:
  assumes tot: "\<forall>a b. le a b \<or> le b a"
      and tr: "\<forall>a b c. le a b \<longrightarrow> le b c \<longrightarrow> le a c"
      and ins: "\<forall>a b t. le (a\<lparr>formattedtime := t\<rparr>) b = le a b \<and> le a (b\<lparr>formattedtime := t\<rparr>) = le a b"
  shows "(offlineEvents s \<noteq> [] \<or> deletedEvents s \<noteq> [] \<longrightarrow>
            sorted_wrt le (map (heap (fetchEvents le gf fmt now_ms (Inr rs) s))
                             (events (fetchEvents le gf fmt now_ms (Inr rs) s))))
       \<and> (offlineEvents s = [] \<and> deletedEvents s = [] \<longrightarrow>
            events (fetchEvents le gf fmt now_ms (Inr rs) s) = rs
            \<and> (sorted_wrt le (map (heap (fetchEvents le gf fmt now_ms (Inr rs) s))
                                (events (fetchEvents le gf fmt now_ms (Inr rs) s)))
               \<longleftrightarrow> sorted_wrt le (map (heap s) rs)))"
proof -
  let ?s1 = "s\<lparr>onlineEvents := rs\<rparr>"
  let ?s' = "fetchEvents le gf fmt now_ms (Inr rs) s"
  have ord: "le (heap ?s' a) (heap ?s' b)
       = le (snd (mergeEvents le now_ms ?s1) a) (snd (mergeEvents le now_ms ?s1) b)" for a b
    using ins by (intro fetchEvents_order) blast
  have srt: "sorted_wrt le (map (heap ?s') (events ?s'))
       = sorted_wrt (\<lambda>a b. le (snd (mergeEvents le now_ms ?s1) a) (snd (mergeEvents le now_ms ?s1) b))
           (fst (mergeEvents le now_ms ?s1))"
    by (simp add: sorted_wrt_map ord fetchEvents_events)
  have "sorted_wrt le (map (heap ?s') (events ?s'))"
    if "offlineEvents s \<noteq> [] \<or> deletedEvents s \<noteq> []"
  proof -
    have "sorted_wrt (\<lambda>a b. le (snd (mergeEvents le now_ms ?s1) a) (snd (mergeEvents le now_ms ?s1) b))
           (fst (mergeEvents le now_ms ?s1))"
      by (rule mergeEvents_sorted) (use tot tr that in auto)
    then show ?thesis by (simp only: srt)
  qed
  moreover have "events ?s' = rs \<and> (sorted_wrt le (map (heap ?s') (events ?s')) \<longleftrightarrow> sorted_wrt le (map (heap s) rs))"
    if "offlineEvents s = [] \<and> deletedEvents s = []"
  proof -
    from that have m: "mergeEvents le now_ms ?s1 = (rs, heap s)"
      by (simp add: mergeEvents_def)
    show ?thesis
      unfolding srt by (simp add: fetchEvents_events m sorted_wrt_map)
  qed
  ultimately show ?thesis by blast
qed

theorem fetchEvents_sorted_witness:
  "sorted_wrt exampleOrder (map (heap exampleLoaded) (events exampleLoaded))
   \<and> events exampleLoaded = [0, 2]
   \<and> events (fetchEvents exampleOrder (\<lambda>h rs. rs) (\<lambda>e tf. Inr ''10:00'') 500000 (Inr [1, 0]) exampleOnlineOnly) = [1, 0]"
proof -
  have tot: "\<forall>a b. exampleOrder a b \<or> exampleOrder b a"
    by (auto simp: exampleOrder_def)
  have tr: "\<forall>a b c. exampleOrder a b \<longrightarrow> exampleOrder b c \<longrightarrow> exampleOrder a c"
    by (auto simp: exampleOrder_def)
  have ins: "\<forall>a b t. exampleOrder (a\<lparr>formattedtime := t\<rparr>) b = exampleOrder a b
                  \<and> exampleOrder a (b\<lparr>formattedtime := t\<rparr>) = exampleOrder a b"
    by (simp add: exampleOrder_def)
  have ne: "offlineEvents exampleComponent \<noteq> [] \<or> deletedEvents exampleComponent \<noteq> []"
    by (simp add: exampleComponent_def)
  have em: "offlineEvents exampleOnlineOnly = [] \<and> deletedEvents exampleOnlineOnly = []"
    by (simp add: exampleOnlineOnly_def)
  have ev: "events exampleLoaded = [0, 2]"
    by (simp add: exampleLoaded_def fetchEvents_def mergeEvents_def Let_def filterEvents_def
      exampleComponent_def exampleStore_def markDeleted_def sortEvents_def inPeriod_def
      SECONDS_DAY_def exampleOrder_def mkEvent_def)
  have "sorted_wrt exampleOrder (map (heap exampleLoaded) (events exampleLoaded))"
    unfolding exampleLoaded_def
    using fetchEvents_sorted [OF tot tr ins, of exampleComponent "\<lambda>h rs. rs" "\<lambda>e tf. Inr ''10:00''" 500000 "[0, 1]"] ne
    by blast
  moreover have "events (fetchEvents exampleOrder (\<lambda>h rs. rs) (\<lambda>e tf. Inr ''10:00'') 500000 (Inr [1, 0]) exampleOnlineOnly) = [1, 0]"
    using fetchEvents_sorted [OF tot tr ins, of exampleOnlineOnly "\<lambda>h rs. rs" "\<lambda>e tf. Inr ''10:00''" 500000 "[1, 0]"] em
    by blast
  ultimately show ?thesis using ev by blast
qed

subsection \<open>Undeleting an event\<close>

lemma undeleteEvent_heap:
  "heap (undeleteEvent i s) r =
     (if find (\<lambda>r. ev_id (heap s r) = i) (onlineEvents s) = Some r
      then (heap s r)\<lparr>deleted := Some False\<rparr> else heap s r)"
  by (auto simp: undeleteEvent_def split: option.split)

lemma undeleteEvent_frame:
  "undeleteEvent i s = s\<lparr>heap := heap (undeleteEvent i s)\<rparr>"
  by (simp add: undeleteEvent_def split: option.split)

lemma find_Some_holds: "find P xs = Some x \<Longrightarrow> P x \<and> x \<in> set xs"
  by (induction xs) (auto split: if_splits)

lemma observer_heap:
  "heap (undeleteEventObserver (Some \<lparr>eventId = Some i\<rparr>) s) =
     (if i = 0 then heap s else heap (undeleteEvent i s))"
  by (simp add: undeleteEventObserver_def Let_def)

lemma observer_deletedEvents:
  "deletedEvents (undeleteEventObserver (Some \<lparr>eventId = Some i\<rparr>) s) =
     (if i = 0 then deletedEvents s else remove1 i (deletedEvents s))"
  by (simp add: undeleteEventObserver_def Let_def undeleteEvent_def remove1_idem split: option.split)

lemma observer_frame:
  "undeleteEventObserver data s =
     s\<lparr>heap := heap (undeleteEventObserver data s),
        deletedEvents := deletedEvents (undeleteEventObserver data s)\<rparr>"
  by (simp add: undeleteEventObserver_def Let_def undeleteEvent_def split: option.split)

lemma filter_remove1_other: "filter (\<lambda>x. x \<noteq> i) (remove1 i xs) = filter (\<lambda>x. x \<noteq> i) xs"
  by (induction xs) auto

text \<open>
  Claim C10. A notification with an \<^verbatim>\<open>eventId\<close> leaves every object with another id as it
  was; the only object that can change is the first online event with that id, and only its
  \<^verbatim>\<open>deleted\<close> flag, which is cleared (for an id other than 0, which the guard treats as
  missing). The first occurrence of the id is removed from \<^verbatim>\<open>deletedEvents\<close>, all other
  entries stay, in order. No other field of the component changes. A notification without
  data or without an \<^verbatim>\<open>eventId\<close> changes nothing.
\<close>

theorem undeleteEventObserver_frame:
  "(\<forall>r. ev_id (heap s r) \<noteq> i \<longrightarrow>
        heap (undeleteEventObserver (Some \<lparr>eventId = Some i\<rparr>) s) r = heap s r)
   \<and> (\<forall>r. heap (undeleteEventObserver (Some \<lparr>eventId = Some i\<rparr>) s) r = heap s r
          \<or> (find (\<lambda>r. ev_id (heap s r) = i) (onlineEvents s) = Some r
              \<and> heap (undeleteEventObserver (Some \<lparr>eventId = Some i\<rparr>) s) r
                  = (heap s r)\<lparr>deleted := Some False\<rparr>))
   \<and> (i \<noteq> 0 \<longrightarrow> (\<forall>r. find (\<lambda>r. ev_id (heap s r) = i) (onlineEvents s) = Some r \<longrightarrow>
          heap (undeleteEventObserver (Some \<lparr>eventId = Some i\<rparr>) s) r
            = (heap s r)\<lparr>deleted := Some False\<rparr>))
   \<and> deletedEvents (undeleteEventObserver (Some \<lparr>eventId = Some i\<rparr>) s)
        = (if i = 0 then deletedEvents s else remove1 i (deletedEvents s))
   \<and> filter (\<lambda>x. x \<noteq> i) (deletedEvents (undeleteEventObserver (Some \<lparr>eventId = Some i\<rparr>) s))
        = filter (\<lambda>x. x \<noteq> i) (deletedEvents s)
   \<and> undeleteEventObserver (Some \<lparr>eventId = Some i\<rparr>) s
        = s\<lparr>heap := heap (undeleteEventObserver (Some \<lparr>eventId = Some i\<rparr>) s),
             deletedEvents := deletedEvents (undeleteEventObserver (Some \<lparr>eventId = Some i\<rparr>) s)\<rparr>
   \<and> undeleteEventObserver (Some \<lparr>eventId = None\<rparr>) s = s
   \<and> undeleteEventObserver None s = s"
proof -
  let ?s' = "undeleteEventObserver (Some \<lparr>eventId = Some i\<rparr>) s"
  have other: "heap ?s' r = heap s r" if "ev_id (heap s r) \<noteq> i" for r
    using that find_Some_holds [of "\<lambda>r. ev_id (heap s r) = i" "onlineEvents s" r]
    by (auto simp: observer_heap undeleteEvent_heap)
  have only: "heap ?s' r = heap s r
          \<or> (find (\<lambda>r. ev_id (heap s r) = i) (onlineEvents s) = Some r
              \<and> heap ?s' r = (heap s r)\<lparr>deleted := Some False\<rparr>)" for r
    by (simp add: observer_heap undeleteEvent_heap)
  have cleared: "heap ?s' r = (heap s r)\<lparr>deleted := Some False\<rparr>"
    if "i \<noteq> 0" "find (\<lambda>r. ev_id (heap s r) = i) (onlineEvents s) = Some r" for r
    using that by (simp add: observer_heap undeleteEvent_heap)
  have del: "deletedEvents ?s' = (if i = 0 then deletedEvents s else remove1 i (deletedEvents s))"
    by (rule observer_deletedEvents)
  have rest: "filter (\<lambda>x. x \<noteq> i) (deletedEvents ?s') = filter (\<lambda>x. x \<noteq> i) (deletedEvents s)"
    by (simp add: del filter_remove1_other)
  have frame: "?s' = s\<lparr>heap := heap ?s', deletedEvents := deletedEvents ?s'\<rparr>"
    by (rule observer_frame)
  have none: "undeleteEventObserver (Some \<lparr>eventId = None\<rparr>) s = s" "undeleteEventObserver None s = s"
    by (simp_all add: undeleteEventObserver_def)
  from other only cleared del rest frame none show ?thesis by blast
qed

theorem undeleteEventObserver_frame_witness:
  "heap (undeleteEventObserver (Some \<lparr>eventId = Some 1\<rparr>) exampleLoaded) 1 = heap exampleLoaded 1
   \<and> deleted (heap exampleLoaded 0) = Some True
   \<and> deleted (heap (undeleteEventObserver (Some \<lparr>eventId = Some 1\<rparr>) exampleLoaded) 0) = Some False
   \<and> deletedEvents exampleLoaded = [1]
   \<and> deletedEvents (undeleteEventObserver (Some \<lparr>eventId = Some 1\<rparr>) exampleLoaded) = []"
proof -
  have ev: "onlineEvents exampleLoaded = [0, 1]" "deletedEvents exampleLoaded = [1]"
      "heap exampleLoaded 0 = (mkEvent 1 2000 60)\<lparr>deleted := Some True, formattedtime := Some ''10:00''\<rparr>"
      "heap exampleLoaded (Suc 0) = (mkEvent 2 1000 0)\<lparr>deleted := Some False\<rparr>"
    by (simp_all add: exampleLoaded_def fetchEvents_def mergeEvents_def Let_def filterEvents_def
      exampleComponent_def exampleStore_def markDeleted_def sortEvents_def inPeriod_def
      SECONDS_DAY_def exampleOrder_def mkEvent_def)
  have f: "find (\<lambda>r. ev_id (heap exampleLoaded r) = 1) (onlineEvents exampleLoaded) = Some 0"
    by (simp add: ev mkEvent_def)
  have o: "ev_id (heap exampleLoaded 1) \<noteq> 1"
    by (simp add: ev mkEvent_def)
  from undeleteEventObserver_frame [of exampleLoaded 1] f o
  show ?thesis by (auto simp: ev mkEvent_def)
qed

section \<open>Properties of the email signup page\<close>

subsection \<open>Submitting the signup form\<close>

lemma create_gate_closed:
  "\<not> signupFormValid p \<or> (recaptchaDeclared p \<and> recaptcharesponse p = []) \<Longrightarrow>
     create env p = [PreventDefault, StopPropagation, ScrollToInputError]
        @ (if scrollToInputError env then [] else [ShowErrorModal ''core.errorinvalidform'' True])"
  by (auto simp: create_def)

text \<open>
  Claim C7. \<^verbatim>\<open>create\<close> calls a web service exactly when the signup form is valid and, if
  the settings declare a recaptcha public key, the captcha response is not empty; the call
  is \<^verbatim>\<open>auth_email_signup_user\<close> with the parameters built from the form. Otherwise nothing
  is sent and an error is shown instead: the page scrolls to the first input with an error
  when \<^verbatim>\<open>scrollToInputError\<close> finds one (the source's \<^verbatim>\<open>errorFound\<close>), and shows the
  invalid-form error modal when it finds none.
\<close>

theorem create_sends_iff_valid:
  "((\<exists>name ps. CallAjax name ps \<in> set (create env p)) \<longleftrightarrow>
       signupFormValid p \<and> (recaptchaDeclared p \<longrightarrow> recaptcharesponse p \<noteq> []))
   \<and> (\<forall>name ps. CallAjax name ps \<in> set (create env p) \<longrightarrow>
         name = ''auth_email_signup_user'' \<and> ps = signupParams env p)
   \<and> (\<not> (signupFormValid p \<and> (recaptchaDeclared p \<longrightarrow> recaptcharesponse p \<noteq> [])) \<longrightarrow>
         create env p = [PreventDefault, StopPropagation, ScrollToInputError]
            @ (if scrollToInputError env then [] else [ShowErrorModal ''core.errorinvalidform'' True]))"
proof (cases "signupFormValid p \<and> (recaptchaDeclared p \<longrightarrow> recaptcharesponse p \<noteq> [])")
  case True
  then have c: "create env p ! 3 = CallAjax ''auth_email_signup_user'' (signupParams env p)"
    by (auto simp: create_def)
  from True have "CallAjax ''auth_email_signup_user'' (signupParams env p) \<in> set (create env p)"
    by (auto simp: create_def)
  moreover from True have "name = ''auth_email_signup_user'' \<and> ps = signupParams env p"
    if "CallAjax name ps \<in> set (create env p)" for name ps
    using that by (auto simp: create_def split: sum.splits if_splits list.splits)
  ultimately show ?thesis using True by blast
next
  case False
  then have "create env p = [PreventDefault, StopPropagation, ScrollToInputError]
        @ (if scrollToInputError env then [] else [ShowErrorModal ''core.errorinvalidform'' True])"
    by (intro create_gate_closed) blast
  with False show ?thesis by auto
qed

theorem create_sends_iff_valid_witness:
  "CallAjax ''auth_email_signup_user'' (signupParams exampleEnv examplePage) \<in> set (create exampleEnv examplePage)
   \<and> create exampleEnv (examplePage\<lparr>recaptcharesponse := []\<rparr>) = [PreventDefault, StopPropagation, ScrollToInputError]
   \<and> create (exampleEnv\<lparr>scrollToInputError := False\<rparr>) (examplePage\<lparr>signupFormValid := False\<rparr>)
       = [PreventDefault, StopPropagation, ScrollToInputError, ShowErrorModal ''core.errorinvalidform'' True]"
proof -
  have v: "signupFormValid examplePage" "recaptchaDeclared examplePage" "recaptcharesponse examplePage \<noteq> []"
    by (simp_all add: examplePage_def recaptchaDeclared_def)
  have a: "CallAjax ''auth_email_signup_user'' (signupParams exampleEnv examplePage) \<in> set (create exampleEnv examplePage)"
    using create_sends_iff_valid [of exampleEnv examplePage] v by blast
  have b: "create exampleEnv (examplePage\<lparr>recaptcharesponse := []\<rparr>) = [PreventDefault, StopPropagation, ScrollToInputError]"
    using create_sends_iff_valid [of exampleEnv "examplePage\<lparr>recaptcharesponse := []\<rparr>"]
    by (simp add: examplePage_def recaptchaDeclared_def exampleEnv_def)
  have c: "create (exampleEnv\<lparr>scrollToInputError := False\<rparr>) (examplePage\<lparr>signupFormValid := False\<rparr>)
       = [PreventDefault, StopPropagation, ScrollToInputError, ShowErrorModal ''core.errorinvalidform'' True]"
    using create_sends_iff_valid [of "exampleEnv\<lparr>scrollToInputError := False\<rparr>" "examplePage\<lparr>signupFormValid := False\<rparr>"]
    by (simp add: examplePage_def recaptchaDeclared_def exampleEnv_def)
  from a b c show ?thesis by blast
qed

subsection \<open>Verifying the age\<close>

text \<open>
  Claim C9. When the age form is valid, so that \<^verbatim>\<open>core_auth_is_minor\<close> is called, and the
  call fails, \<^verbatim>\<open>isMinor\<close>, \<^verbatim>\<open>ageDigitalConsentVerification\<close> and the signup country control
  keep their values (the only write is the parsed age in the age form's value), and what the
  user gets is the loading modal, the error message and the dismissal of the modal.
\<close>

theorem verifyAge_call_fails:
  assumes "ageFormValid p" and "isMinorCall env (ageParams env p) = Inl err"
  shows "isMinor (fst (verifyAge env p)) = isMinor p
       \<and> ageDigitalConsentVerification (fst (verifyAge env p)) = ageDigitalConsentVerification p
       \<and> signUpCountryControl (fst (verifyAge env p)) = signUpCountryControl p
       \<and> fst (verifyAge env p) = p\<lparr>age := parseAge env (age p)\<rparr>
       \<and> snd (verifyAge env p) =
           [PreventDefault, StopPropagation, ShowModalLoading ''core.sending'' True,
            CallAjax ''core_auth_is_minor'' (ageParams env p),
            ShowErrorModal ageErrorMessage False, ModalDismiss]"
  using assms by (simp add: verifyAge_def Let_def)

theorem verifyAge_call_fails_witness:
  "isMinor (fst (verifyAge exampleEnv examplePage)) = False
   \<and> ageDigitalConsentVerification (fst (verifyAge exampleEnv examplePage)) = Some True
   \<and> signUpCountryControl (fst (verifyAge exampleEnv examplePage)) = Some ''ES''
   \<and> snd (verifyAge exampleEnv examplePage) =
           [PreventDefault, StopPropagation, ShowModalLoading ''core.sending'' True,
            CallAjax ''core_auth_is_minor'' [(''age'', WNum 12), (''country'', WStr ''AU'')],
            ShowErrorModal ageErrorMessage False, ModalDismiss]"
proof -
  have v: "ageFormValid examplePage" by (simp add: examplePage_def)
  have f: "isMinorCall exampleEnv (ageParams exampleEnv examplePage) = Inl (Rejected ''network'')"
    by (simp add: exampleEnv_def)
  from verifyAge_call_fails [OF v f] show ?thesis
    by (simp add: examplePage_def ageParams_def parseAge_def exampleEnv_def)
qed

section \<open>Properties of the site plugins helper\<close>

lemmas plugin_example_defs =
  examplePluginEnv_def examplePlugin_def exampleSchema_def emptyWorld_def exampleSite_def
  emptyResult_def

lemmas register_defs =
  registerHandler_def registerInDelegate_def registerMainMenuHandler_def registerModuleHandler_def
  registerUserProfileHandler_def registerCourseOptionHandler_def registerCourseFormatHandler_def
  registerUserProfileFieldHandler_def downloadStyles_def loadStyles_def currentStylesUrl_def
  stylesUrl_def executeHandlerInit_def executeMethodAndJS_def setSitePluginHandler_def
  getPrefixedString_def getPrefixForStrings_def Let_def

subsection \<open>The cache of style files\<close>

text \<open>
  Claim C4. When the site is found, \<^verbatim>\<open>downloadStyles\<close> asks the file pool to remove, of
  the files it reports for the handler's component, exactly those whose URL differs from the
  handler's current styles URL (the URL of the schema, made absolute with the site's URL;
  every file when there is none). When the schema declares no styles URL the promise
  resolves with the empty string, and nothing is downloaded or fetched.
\<close>

theorem downloadStyles_removes_unused:
  assumes site: "getSite env siteId = Inr st"
  shows "(\<forall>files. getFilesByComponent env (site_id st) (getHandlerUniqueName env pl handlerName @ ''#main'') = Inr files \<longrightarrow>
            removedFiles (snd (downloadStyles env pl handlerName sc siteId w))
              = removedFiles w @ map file_url (filter (\<lambda>f. Some (file_url f) \<noteq> currentStylesUrl env st sc) files)
            \<and> (\<forall>f \<in> set files.
                 file_url f \<in> set (drop (length (removedFiles w))
                                     (removedFiles (snd (downloadStyles env pl handlerName sc siteId w))))
                 \<longleftrightarrow> Some (file_url f) \<noteq> currentStylesUrl env st sc))
       \<and> (stylesUrl sc = None \<or> stylesUrl sc = Some [] \<longrightarrow>
            fst (downloadStyles env pl handlerName sc siteId w) = Inr []
            \<and> downloadedUrls (snd (downloadStyles env pl handlerName sc siteId w)) = downloadedUrls w
            \<and> httpGets (snd (downloadStyles env pl handlerName sc siteId w)) = httpGets w)"
proof -
  have rm: "removedFiles (snd (downloadStyles env pl handlerName sc siteId w))
              = removedFiles w @ map file_url (filter (\<lambda>f. Some (file_url f) \<noteq> currentStylesUrl env st sc) files)"
    if "getFilesByComponent env (site_id st) (getHandlerUniqueName env pl handlerName @ ''#main'') = Inr files"
    for files
    using site that
    by (simp add: downloadStyles_def Let_def split: option.split sum.split)
  have each: "file_url f \<in> set (drop (length (removedFiles w))
                                     (removedFiles (snd (downloadStyles env pl handlerName sc siteId w))))
                 \<longleftrightarrow> Some (file_url f) \<noteq> currentStylesUrl env st sc"
    if "getFilesByComponent env (site_id st) (getHandlerUniqueName env pl handlerName @ ''#main'') = Inr files"
       "f \<in> set files"
    for files f
    using that(2) by (auto simp: rm [OF that(1)])
  have none: "fst (downloadStyles env pl handlerName sc siteId w) = Inr []
            \<and> downloadedUrls (snd (downloadStyles env pl handlerName sc siteId w)) = downloadedUrls w
            \<and> httpGets (snd (downloadStyles env pl handlerName sc siteId w)) = httpGets w"
    if "stylesUrl sc = None \<or> stylesUrl sc = Some []"
    using site that
    by (auto simp: downloadStyles_def currentStylesUrl_def Let_def split: sum.split)
  from rm each none show ?thesis by blast
qed

theorem downloadStyles_removes_unused_witness:
  "removedFiles (snd (downloadStyles examplePluginEnv examplePlugin ''view'' exampleSchema None emptyWorld))
     = [''https://school.example/old.css'']
   \<and> removedFiles (snd (downloadStyles examplePluginEnv examplePlugin ''view''
        (exampleSchema\<lparr>styles := None\<rparr>) None emptyWorld))
     = [''https://school.example/old.css'', ''https://school.example/styles.css'']
   \<and> fst (downloadStyles examplePluginEnv examplePlugin ''view''
        (exampleSchema\<lparr>styles := None\<rparr>) None emptyWorld) = Inr []
   \<and> downloadedUrls (snd (downloadStyles examplePluginEnv examplePlugin ''view''
        (exampleSchema\<lparr>styles := None\<rparr>) None emptyWorld)) = []"
proof -
  have s: "getSite examplePluginEnv None = Inr exampleSite"
    by (simp add: examplePluginEnv_def)
  have f: "getFilesByComponent examplePluginEnv (site_id exampleSite)
             (getHandlerUniqueName examplePluginEnv examplePlugin ''view'' @ ''#main'')
           = Inr [\<lparr>file_url = ''https://school.example/old.css''\<rparr>,
                  \<lparr>file_url = ''https://school.example/styles.css''\<rparr>]"
    by (simp add: examplePluginEnv_def)
  have u: "currentStylesUrl examplePluginEnv exampleSite exampleSchema = Some ''https://school.example/styles.css''"
      "currentStylesUrl examplePluginEnv exampleSite (exampleSchema\<lparr>styles := None\<rparr>) = None"
      "stylesUrl (exampleSchema\<lparr>styles := None\<rparr>) = None"
    by (simp_all add: currentStylesUrl_def stylesUrl_def examplePluginEnv_def exampleSchema_def exampleSite_def)
  from downloadStyles_removes_unused [OF s, of examplePlugin "''view''" exampleSchema emptyWorld]
       downloadStyles_removes_unused [OF s, of examplePlugin "''view''" "exampleSchema\<lparr>styles := None\<rparr>" emptyWorld]
       f u
  show ?thesis by (simp add: emptyWorld_def)
qed

subsection \<open>Fetching the enabled plugins\<close>

lemma hasOwnKeys_iff: "hasOwnKeys v \<longleftrightarrow> truthy v \<and> 0 < keyCount v"
  by (cases v) (simp_all add: hasOwnKeys_def)

lemma isSitePluginEnabled_received:
  "fst (isSitePluginEnabled env (received q) st) = enabledSitePlugin env st q"
  "fst (isSitePluginEnabled env (received q) st) \<Longrightarrow>
     snd (isSitePluginEnabled env (received q) st) = withParsedHandlers env q"
  by (auto simp: isSitePluginEnabled_def received_def enabledSitePlugin_def withParsedHandlers_def
      Let_def hasOwnKeys_iff split: option.splits)

lemma enabled_list:
  "map snd (filter fst (map (\<lambda>q. isSitePluginEnabled env (received q) st) qs))
     = map (withParsedHandlers env) (filter (enabledSitePlugin env st) qs)"
  by (induction qs) (auto simp: isSitePluginEnabled_received)

text \<open>
  Claim C3 as stated fails: a manifest that parses into a string that is not empty is
  accepted although it is no object, because the helper only tests that the parsed value is
  truthy and has keys. The plugin \<^verbatim>\<open>local_text\<close> of the example response is returned.
\<close>

theorem fetchSitePlugins_object_counterexample:
  "fst (fetchSitePlugins examplePluginEnv None)
     = Inr [\<lparr>component = ''mod_certificate'', addon = ''mod_certificate'',
             handlers = Some objectManifest, parsedHandlers = JObj [(''view'', JObj [])]\<rparr>,
            \<lparr>component = ''local_text'', addon = ''local_text'',
             handlers = Some stringManifest, parsedHandlers = JStr ''ab''\<rparr>]
   \<and> parseJSON examplePluginEnv stringManifest JNull = JStr ''ab''"
  by (simp add: fetchSitePlugins_def isSitePluginEnabled_def received_def Let_def examplePluginEnv_def
      exampleResponse_def objectManifest_def stringManifest_def)

text \<open>
  Claim C3, amended. When the site is found and the get-content web service is available,
  \<^verbatim>\<open>fetchSitePlugins\<close> returns, in the order of the response, exactly the plugins whose
  feature \<^verbatim>\<open>sitePlugin_<component>_<addon>\<close> is not disabled and whose handlers are
  declared and parse into a truthy value with at least one key (an object, an array or a
  string that is not empty), each with its parsed handlers. When the web service is not
  available the result is the empty list and the site is not asked to read anything.
\<close>

theorem fetchSitePlugins_enabled:
  assumes site: "getSite env siteId = Inr st"
  shows "(isGetContentAvailable env st \<longrightarrow>
            (\<forall>qs. readPlugins env st = Inr qs \<longrightarrow>
               fst (fetchSitePlugins env siteId)
                 = Inr (map (withParsedHandlers env) (filter (enabledSitePlugin env st) qs))))
       \<and> (\<not> isGetContentAvailable env st \<longrightarrow> fetchSitePlugins env siteId = (Inr [], []))"
  using site by (simp add: fetchSitePlugins_def enabled_list)

theorem fetchSitePlugins_enabled_witness:
  "fst (fetchSitePlugins examplePluginEnv None)
     = Inr [\<lparr>component = ''mod_certificate'', addon = ''mod_certificate'',
             handlers = Some objectManifest, parsedHandlers = JObj [(''view'', JObj [])]\<rparr>,
            \<lparr>component = ''local_text'', addon = ''local_text'',
             handlers = Some stringManifest, parsedHandlers = JStr ''ab''\<rparr>]
   \<and> fetchSitePlugins (examplePluginEnv\<lparr>isGetContentAvailable := (\<lambda>st. False)\<rparr>) None = (Inr [], [])"
proof -
  have s: "getSite examplePluginEnv None = Inr exampleSite"
      "getSite (examplePluginEnv\<lparr>isGetContentAvailable := (\<lambda>st. False)\<rparr>) None = Inr exampleSite"
    by (simp_all add: examplePluginEnv_def)
  have a: "isGetContentAvailable examplePluginEnv exampleSite"
      "\<not> isGetContentAvailable (examplePluginEnv\<lparr>isGetContentAvailable := (\<lambda>st. False)\<rparr>) exampleSite"
      "readPlugins examplePluginEnv exampleSite = Inr exampleResponse"
    by (simp_all add: examplePluginEnv_def)
  have f: "map (withParsedHandlers examplePluginEnv) (filter (enabledSitePlugin examplePluginEnv exampleSite) exampleResponse)
     = [\<lparr>component = ''mod_certificate'', addon = ''mod_certificate'',
             handlers = Some objectManifest, parsedHandlers = JObj [(''view'', JObj [])]\<rparr>,
            \<lparr>component = ''local_text'', addon = ''local_text'',
             handlers = Some stringManifest, parsedHandlers = JStr ''ab''\<rparr>]"
    by (simp add: enabledSitePlugin_def withParsedHandlers_def hasOwnKeys_def received_def
        examplePluginEnv_def exampleResponse_def objectManifest_def stringManifest_def)
  from fetchSitePlugins_enabled [OF s(1)] fetchSitePlugins_enabled [OF s(2)] a
  show ?thesis by (simp add: f)
qed

subsection \<open>What registering a handler leaves alone\<close>

lemma downloadStyles_registries:
  "sameRegistries w (snd (downloadStyles env pl n sc sid w))"
  by (simp add: downloadStyles_def sameRegistries_def Let_def split: sum.split option.split)

lemma loadStyles_registries: "sameRegistries w (loadStyles env pl n u c v sid w)"
  by (simp add: loadStyles_def sameRegistries_def Let_def)

lemma sameRegistries_trans: "sameRegistries a b \<Longrightarrow> sameRegistries b c \<Longrightarrow> sameRegistries a c"
  by (simp add: sameRegistries_def)

lemma sameRegistries_refl: "sameRegistries a a"
  by (simp add: sameRegistries_def)

lemma downloadStyles_code_styles:
  "fst (downloadStyles env pl n sc sid w) = Inr code \<Longrightarrow> code \<noteq> [] \<Longrightarrow> styles sc \<noteq> None"
  by (auto simp: downloadStyles_def currentStylesUrl_def stylesUrl_def Let_def
      split: sum.splits option.splits if_splits)

lemma registerHandler_init_fails:
  "executeHandlerInit env pl sc = Inl e \<Longrightarrow>
     sameRegistries w (registerHandler env pl n sc w)"
  by (simp add: registerHandler_def Let_def downloadStyles_registries)

lemma registerHandler_init_ok:
  assumes "executeHandlerInit env pl sc = Inr r"
  shows "\<exists>w2. sameRegistries w w2 \<and>
           registerHandler env pl n sc w =
             (case registerInDelegate env pl n sc r w2 of
                (uniqueName, sc1, w3) \<Rightarrow>
                  (case uniqueName of
                     None \<Rightarrow> w3
                   | Some u \<Rightarrow>
                       if u = [] then w3
                       else setSitePluginHandler u
                              \<lparr>hdPlugin = pl, hdHandlerName = n,
                               hdHandlerSchema = sc1, hdInitResult = r\<rparr> w3))"
proof -
  let ?dl = "downloadStyles env pl n sc (Some (getCurrentSiteId env)) w"
  let ?k = "\<lambda>w2. (case registerInDelegate env pl n sc r w2 of
                (uniqueName, sc1, w3) \<Rightarrow>
                  (case uniqueName of
                     None \<Rightarrow> w3
                   | Some u \<Rightarrow>
                       if u = [] then w3
                       else setSitePluginHandler u
                              \<lparr>hdPlugin = pl, hdHandlerName = n,
                               hdHandlerSchema = sc1, hdInitResult = r\<rparr> w3))"
  have w1: "sameRegistries w (snd ?dl)" by (rule downloadStyles_registries)
  show ?thesis
  proof (cases "\<exists>code. fst ?dl = Inr code \<and> code \<noteq> []")
    case True
    then obtain code where c: "fst ?dl = Inr code" "code \<noteq> []" by blast
    then obtain sty where sty: "styles sc = Some sty"
      using downloadStyles_code_styles [of env pl n sc "Some (getCurrentSiteId env)" w code] by auto
    let ?w2 = "loadStyles env pl n (url sty) code (version sty) (Some (getCurrentSiteId env)) (snd ?dl)"
    have "registerHandler env pl n sc w = ?k ?w2"
      using assms c sty by (simp add: registerHandler_def Let_def)
    moreover have "sameRegistries w ?w2"
      using w1 loadStyles_registries by (rule sameRegistries_trans)
    ultimately show ?thesis by blast
  next
    case False
    then have "registerHandler env pl n sc w = ?k (snd ?dl)"
      using assms by (auto simp: registerHandler_def Let_def split: sum.split option.split)
    with w1 show ?thesis by blast
  qed
qed

lemma registerInDelegate_world:
  "\<exists>new. (\<forall>d. delegateOf d (snd (snd (registerInDelegate env pl n sc r w)))
              = (if delegate sc = Some d then map_option (\<lambda>hs. hs @ new) (delegateOf d w) else delegateOf d w))
         \<and> length new \<le> 1
         \<and> (new \<noteq> [] \<longleftrightarrow>
              (\<exists>d. delegate sc = Some d \<and>
                (if d = ''CoreMainMenuDelegate'' \<or> d = ''CoreCourseModuleDelegate''
                    \<or> d = ''CoreUserDelegate'' \<or> d = ''CoreCourseOptionsDelegate''
                 then truthy (displaydata sc)
                 else if d = ''CoreCourseFormatDelegate'' then True
                 else if d = ''CoreUserProfileFieldDelegate''
                 then (\<exists>m res. hmethod sc = Some m \<and> m \<noteq> [] \<and> executeMethodAndJS env pl m False = Inr res)
                 else False)))
         \<and> sitePluginHandlers (snd (snd (registerInDelegate env pl n sc r w))) = sitePluginHandlers w
         \<and> (delegate sc \<noteq> Some ''CoreCourseModuleDelegate'' \<longrightarrow>
              prefetchDelegate (snd (snd (registerInDelegate env pl n sc r w))) = prefetchDelegate w)"
proof (cases "delegate sc")
  case None
  then show ?thesis
    by (intro exI [of _ "[]"]) (simp add: registerInDelegate_def)
next
  case (Some d)
  have "d = ''CoreMainMenuDelegate'' \<or> d = ''CoreCourseModuleDelegate''
      \<or> d = ''CoreUserDelegate'' \<or> d = ''CoreCourseOptionsDelegate''
      \<or> d = ''CoreCourseFormatDelegate'' \<or> d = ''CoreUserProfileFieldDelegate''
      \<or> delegateOf d w = None"
    by (simp add: delegateOf_def)
  then show ?thesis
  proof (elim disjE)
    assume mm: "d = ''CoreMainMenuDelegate''"
    show ?thesis
      by (intro exI [of _ "if truthy (displaydata sc) then [MainMenuHandler (getHandlerUniqueName env pl n)
             (getPrefixedString (addon pl) (getProp (displaydata sc) ''title'')) pl sc r] else []"])
         (simp add: Some mm registerInDelegate_def registerMainMenuHandler_def delegateOf_def Let_def)
  next
    assume mo: "d = ''CoreCourseModuleDelegate''"
    show ?thesis
      by (intro exI [of _ "if truthy (displaydata sc) then [ModuleHandler (getHandlerUniqueName env pl n)
             (replaceFirst ''mod_'' (component pl)) sc] else []"])
         (simp add: Some mo registerInDelegate_def registerModuleHandler_def delegateOf_def Let_def)
  next
    assume us: "d = ''CoreUserDelegate''"
    show ?thesis
      by (intro exI [of _ "if truthy (displaydata sc) then [UserProfileHandler (getHandlerUniqueName env pl n)
             (getPrefixedString (addon pl) (getProp (displaydata sc) ''title'')) pl sc r] else []"])
         (simp add: Some us registerInDelegate_def registerUserProfileHandler_def delegateOf_def Let_def)
  next
    assume co: "d = ''CoreCourseOptionsDelegate''"
    show ?thesis
      by (intro exI [of _ "if truthy (displaydata sc) then [CourseOptionHandler (getHandlerUniqueName env pl n)
             (getPrefixedString (addon pl) (getProp (displaydata sc) ''title'')) pl sc r] else []"])
         (simp add: Some co registerInDelegate_def registerCourseOptionHandler_def delegateOf_def Let_def)
  next
    assume cf: "d = ''CoreCourseFormatDelegate''"
    show ?thesis
      by (intro exI [of _ "[CourseFormatHandler (getHandlerUniqueName env pl n)
             (replaceFirst ''format_'' (component pl)) sc]"])
         (simp add: Some cf registerInDelegate_def registerCourseFormatHandler_def delegateOf_def Let_def)
  next
    assume pf: "d = ''CoreUserProfileFieldDelegate''"
    show ?thesis
    proof (cases "\<exists>m res. hmethod sc = Some m \<and> m \<noteq> [] \<and> executeMethodAndJS env pl m False = Inr res")
      case True
      then obtain m res where m: "hmethod sc = Some m" "m \<noteq> []" "executeMethodAndJS env pl m False = Inr res"
        by blast
      show ?thesis
        by (intro exI [of _ "[UserProfileFieldHandler (getHandlerUniqueName env pl n)
               (replaceFirst ''profilefield_'' (component pl))
               (if truthy (jsResult res) then jsResult res else JUndefined)]"])
           (simp add: Some pf m registerInDelegate_def registerUserProfileFieldHandler_def delegateOf_def Let_def)
    next
      case False
      then have "registerUserProfileFieldHandler env pl n sc r w = (None, sc, w)"
        by (auto simp: registerUserProfileFieldHandler_def split: option.split sum.split)
      with False show ?thesis
        by (intro exI [of _ "[]"]) (simp add: Some pf registerInDelegate_def option.map_ident)
    qed
  next
    assume other: "delegateOf d w = None"
    then have "registerInDelegate env pl n sc r w = (None, sc, w)"
      by (simp add: Some registerInDelegate_def delegateOf_def split: if_splits)
    with other show ?thesis
      by (intro exI [of _ "[]"]) (auto simp: Some delegateOf_def option.map_ident split: if_splits)
  qed
qed

lemma delegateOf_same: "sameRegistries w w2 \<Longrightarrow> delegateOf d w2 = delegateOf d w"
  by (simp add: sameRegistries_def delegateOf_def)

lemma delegateOf_store [simp]: "delegateOf d (setSitePluginHandler u x w) = delegateOf d w"
  by (simp add: setSitePluginHandler_def delegateOf_def)

lemma registerInDelegate_none:
  "delegate sc = None \<or> (\<exists>d. delegate sc = Some d \<and> delegateOf d w0 = None) \<Longrightarrow>
     registerInDelegate env pl n sc r w = (None, sc, w)"
  by (auto simp: registerInDelegate_def delegateOf_def split: if_splits)

lemma registerHandler_delegates:
  "\<exists>new. (\<forall>d. delegateOf d (registerHandler env pl n sc w)
              = (if delegate sc = Some d then map_option (\<lambda>hs. hs @ new) (delegateOf d w) else delegateOf d w))
         \<and> length new \<le> 1
         \<and> (new \<noteq> [] \<longleftrightarrow> (\<exists>d. delegate sc = Some d \<and> requiredDataPresent env pl sc d))"
proof (cases "executeHandlerInit env pl sc")
  case (Inl e)
  then have "sameRegistries w (registerHandler env pl n sc w)"
    by (rule registerHandler_init_fails)
  then have "delegateOf d (registerHandler env pl n sc w) = delegateOf d w" for d
    by (rule delegateOf_same)
  then show ?thesis
    by (intro exI [of _ "[]"]) (simp add: Inl requiredDataPresent_def option.map_ident)
next
  case (Inr r)
  from registerHandler_init_ok [OF Inr, of w n] obtain w2 where
    w2: "sameRegistries w w2" and
    eq: "registerHandler env pl n sc w =
             (case registerInDelegate env pl n sc r w2 of
                (uniqueName, sc1, w3) \<Rightarrow>
                  (case uniqueName of
                     None \<Rightarrow> w3
                   | Some u \<Rightarrow>
                       if u = [] then w3
                       else setSitePluginHandler u
                              \<lparr>hdPlugin = pl, hdHandlerName = n,
                               hdHandlerSchema = sc1, hdInitResult = r\<rparr> w3))"
    by blast
  have d': "delegateOf d (registerHandler env pl n sc w)
      = delegateOf d (snd (snd (registerInDelegate env pl n sc r w2)))" for d
    unfolding eq by (simp split: prod.split option.split)
  from registerInDelegate_world [of env pl n sc r w2] obtain new where
    new: "\<forall>d. delegateOf d (snd (snd (registerInDelegate env pl n sc r w2)))
              = (if delegate sc = Some d then map_option (\<lambda>hs. hs @ new) (delegateOf d w2) else delegateOf d w2)"
      "length new \<le> 1"
      "new \<noteq> [] \<longleftrightarrow>
              (\<exists>d. delegate sc = Some d \<and>
                (if d = ''CoreMainMenuDelegate'' \<or> d = ''CoreCourseModuleDelegate''
                    \<or> d = ''CoreUserDelegate'' \<or> d = ''CoreCourseOptionsDelegate''
                 then truthy (displaydata sc)
                 else if d = ''CoreCourseFormatDelegate'' then True
                 else if d = ''CoreUserProfileFieldDelegate''
                 then (\<exists>m res. hmethod sc = Some m \<and> m \<noteq> [] \<and> executeMethodAndJS env pl m False = Inr res)
                 else False))"
    by blast
  have "\<forall>d. delegateOf d (registerHandler env pl n sc w)
              = (if delegate sc = Some d then map_option (\<lambda>hs. hs @ new) (delegateOf d w) else delegateOf d w)"
    using new(1) by (simp add: d' delegateOf_same [OF w2])
  moreover have "new \<noteq> [] \<longleftrightarrow> (\<exists>d. delegate sc = Some d \<and> requiredDataPresent env pl sc d)"
    unfolding new(3) requiredDataPresent_def using Inr by simp
  ultimately show ?thesis using new(2) by blast
qed

lemma registerHandler_other:
  assumes "delegate sc = None \<or> (\<exists>d. delegate sc = Some d \<and> delegateOf d w = None)"
  shows "sameRegistries w (registerHandler env pl n sc w)"
proof (cases "executeHandlerInit env pl sc")
  case (Inl e)
  then show ?thesis by (rule registerHandler_init_fails)
next
  case (Inr r)
  from registerHandler_init_ok [OF Inr, of w n] obtain w2 where
    w2: "sameRegistries w w2" and
    eq: "registerHandler env pl n sc w =
             (case registerInDelegate env pl n sc r w2 of
                (uniqueName, sc1, w3) \<Rightarrow>
                  (case uniqueName of
                     None \<Rightarrow> w3
                   | Some u \<Rightarrow>
                       if u = [] then w3
                       else setSitePluginHandler u
                              \<lparr>hdPlugin = pl, hdHandlerName = n,
                               hdHandlerSchema = sc1, hdInitResult = r\<rparr> w3))"
    by blast
  have "registerInDelegate env pl n sc r w2 = (None, sc, w2)"
    using assms by (rule registerInDelegate_none)
  with eq have "registerHandler env pl n sc w = w2" by simp
  with w2 show ?thesis by simp
qed

subsection \<open>The delegate a handler is registered in\<close>

text \<open>
  Claim C1 as stated fails: a main menu handler without \<^verbatim>\<open>displaydata\<close> is ignored, so
  it is registered in none of the six delegates.
\<close>

theorem registerHandler_exactly_one_counterexample:
  "delegate (exampleSchema\<lparr>delegate := Some ''CoreMainMenuDelegate'', displaydata := JUndefined\<rparr>)
     = Some ''CoreMainMenuDelegate''
   \<and> mainMenuDelegate (registerHandler examplePluginEnv examplePlugin ''view''
        (exampleSchema\<lparr>delegate := Some ''CoreMainMenuDelegate'', displaydata := JUndefined\<rparr>) emptyWorld) = []
   \<and> moduleDelegate (registerHandler examplePluginEnv examplePlugin ''view''
        (exampleSchema\<lparr>delegate := Some ''CoreMainMenuDelegate'', displaydata := JUndefined\<rparr>) emptyWorld) = []
   \<and> userDelegate (registerHandler examplePluginEnv examplePlugin ''view''
        (exampleSchema\<lparr>delegate := Some ''CoreMainMenuDelegate'', displaydata := JUndefined\<rparr>) emptyWorld) = []
   \<and> courseOptionsDelegate (registerHandler examplePluginEnv examplePlugin ''view''
        (exampleSchema\<lparr>delegate := Some ''CoreMainMenuDelegate'', displaydata := JUndefined\<rparr>) emptyWorld) = []
   \<and> courseFormatDelegate (registerHandler examplePluginEnv examplePlugin ''view''
        (exampleSchema\<lparr>delegate := Some ''CoreMainMenuDelegate'', displaydata := JUndefined\<rparr>) emptyWorld) = []
   \<and> profileFieldDelegate (registerHandler examplePluginEnv examplePlugin ''view''
        (exampleSchema\<lparr>delegate := Some ''CoreMainMenuDelegate'', displaydata := JUndefined\<rparr>) emptyWorld) = []"
  by (simp add: register_defs plugin_example_defs)

text \<open>
  Claim C1, amended. Of the six delegates only the one named by \<^verbatim>\<open>handlerSchema.delegate\<close>
  can change, and it gets at most one handler; it gets one exactly when the init method has
  not failed and the schema has the data that delegate requires. For any other delegate
  string, or none, the delegates (the prefetch delegate too) and the handler map stay as
  they are.
\<close>

theorem registerHandler_dispatch:
  "(\<forall>d. delegateOf d (registerHandler env pl n sc w) \<noteq> delegateOf d w \<longrightarrow> delegate sc = Some d)
   \<and> (\<forall>d hs. delegateOf d w = Some hs \<longrightarrow>
         (\<exists>new. delegateOf d (registerHandler env pl n sc w) = Some (hs @ new) \<and> length new \<le> 1))
   \<and> (\<forall>d. delegate sc = Some d \<longrightarrow>
         (delegateOf d (registerHandler env pl n sc w) \<noteq> delegateOf d w
            \<longleftrightarrow> requiredDataPresent env pl sc d))
   \<and> (delegate sc = None \<or> (\<exists>d. delegate sc = Some d \<and> delegateOf d w = None) \<longrightarrow>
         sameRegistries w (registerHandler env pl n sc w))"
proof -
  let ?w' = "registerHandler env pl n sc w"
  from registerHandler_delegates [of env pl n sc w] obtain new where
    new: "\<And>d. delegateOf d ?w'
              = (if delegate sc = Some d then map_option (\<lambda>hs. hs @ new) (delegateOf d w) else delegateOf d w)"
      "length new \<le> 1"
      "new \<noteq> [] \<longleftrightarrow> (\<exists>d. delegate sc = Some d \<and> requiredDataPresent env pl sc d)"
    by blast
  have a: "delegate sc = Some d" if "delegateOf d ?w' \<noteq> delegateOf d w" for d
    using that new(1) [of d] by (simp split: if_splits)
  have b: "\<exists>new. delegateOf d ?w' = Some (hs @ new) \<and> length new \<le> 1"
    if "delegateOf d w = Some hs" for d hs
  proof (cases "delegate sc = Some d")
    case True
    with that new(1) [of d] new(2) show ?thesis by auto
  next
    case False
    with that new(1) [of d] have "delegateOf d ?w' = Some (hs @ [])" by simp
    then show ?thesis by (intro exI [of _ "[]"]) simp
  qed
  have c: "delegateOf d ?w' \<noteq> delegateOf d w \<longleftrightarrow> requiredDataPresent env pl sc d"
    if "delegate sc = Some d" for d
  proof (cases "delegateOf d w")
    case None
    then have "\<not> requiredDataPresent env pl sc d"
      by (auto simp: requiredDataPresent_def delegateOf_def split: if_splits)
    with None that new(1) [of d] show ?thesis by simp
  next
    case (Some hs)
    with that new(1) [of d] have "delegateOf d ?w' \<noteq> delegateOf d w \<longleftrightarrow> new \<noteq> []" by simp
    with new(3) that show ?thesis by simp
  qed
  have d: "sameRegistries w ?w'"
    if "delegate sc = None \<or> (\<exists>d. delegate sc = Some d \<and> delegateOf d w = None)"
    using that by (rule registerHandler_other)
  from a b c d show ?thesis by blast
qed

theorem registerHandler_dispatch_witness:
  "delegateOf ''CoreCourseModuleDelegate''
      (registerHandler examplePluginEnv examplePlugin ''view'' exampleSchema emptyWorld)
     \<noteq> delegateOf ''CoreCourseModuleDelegate'' emptyWorld
   \<and> delegateOf ''CoreMainMenuDelegate''
      (registerHandler examplePluginEnv examplePlugin ''view'' exampleSchema emptyWorld) = Some []"
proof -
  let ?w' = "registerHandler examplePluginEnv examplePlugin ''view'' exampleSchema emptyWorld"
  have req: "requiredDataPresent examplePluginEnv examplePlugin exampleSchema ''CoreCourseModuleDelegate''"
    by (simp add: requiredDataPresent_def executeHandlerInit_def exampleSchema_def)
  have del: "delegate exampleSchema = Some ''CoreCourseModuleDelegate''"
    by (simp add: exampleSchema_def)
  have ndel: "delegate exampleSchema \<noteq> Some ''CoreMainMenuDelegate''"
    by (simp add: exampleSchema_def)
  have mm: "delegateOf ''CoreMainMenuDelegate'' emptyWorld = Some []"
    by (simp add: delegateOf_def emptyWorld_def)
  note d = registerHandler_dispatch [of examplePluginEnv examplePlugin "''view''" exampleSchema emptyWorld]
  from d have only: "delegateOf ''CoreMainMenuDelegate'' ?w' \<noteq> delegateOf ''CoreMainMenuDelegate'' emptyWorld
      \<longrightarrow> delegate exampleSchema = Some ''CoreMainMenuDelegate''"
    by (elim conjE allE) 
  from d have reg: "delegate exampleSchema = Some ''CoreCourseModuleDelegate'' \<longrightarrow>
      (delegateOf ''CoreCourseModuleDelegate'' ?w' \<noteq> delegateOf ''CoreCourseModuleDelegate'' emptyWorld
         \<longleftrightarrow> requiredDataPresent examplePluginEnv examplePlugin exampleSchema ''CoreCourseModuleDelegate'')"
    by (elim conjE allE)
  from reg del req have "delegateOf ''CoreCourseModuleDelegate'' ?w' \<noteq> delegateOf ''CoreCourseModuleDelegate'' emptyWorld"
    by (simp only: simp_thms)
  moreover from only ndel have "delegateOf ''CoreMainMenuDelegate'' ?w' = delegateOf ''CoreMainMenuDelegate'' emptyWorld"
    by blast
  ultimately show ?thesis by (simp only: mm simp_thms)
qed

subsection \<open>The key a handler is stored under\<close>

lemma registerInDelegate_ident:
  "fst (registerInDelegate env pl n sc r w2) = fst (registerInDelegate env pl n sc r w)"
  "fst (snd (registerInDelegate env pl n sc r w2)) = fst (snd (registerInDelegate env pl n sc r w))"
  by (simp_all add: registerInDelegate_def registerMainMenuHandler_def registerModuleHandler_def
      registerUserProfileHandler_def registerCourseOptionHandler_def registerCourseFormatHandler_def
      registerUserProfileFieldHandler_def Let_def split: option.split sum.split)

lemma registerInDelegate_handlers:
  "sitePluginHandlers (snd (snd (registerInDelegate env pl n sc r w))) = sitePluginHandlers w"
  using registerInDelegate_world [of env pl n sc r w] by blast

lemma registerInDelegate_key:
  assumes "fst (registerInDelegate env pl n sc r w) = Some u"
  shows "((delegate sc = Some ''CoreMainMenuDelegate'' \<or> delegate sc = Some ''CoreUserDelegate''
            \<or> delegate sc = Some ''CoreCourseOptionsDelegate'')
          \<and> u = getHandlerUniqueName env pl n)
       \<or> (delegate sc = Some ''CoreCourseModuleDelegate'' \<and> u = replaceFirst ''mod_'' (component pl))
       \<or> (delegate sc = Some ''CoreCourseFormatDelegate'' \<and> u = replaceFirst ''format_'' (component pl))
       \<or> (delegate sc = Some ''CoreUserProfileFieldDelegate''
           \<and> u = replaceFirst ''profilefield_'' (component pl))"
  using assms
  by (auto simp: registerInDelegate_def registerMainMenuHandler_def registerModuleHandler_def
      registerUserProfileHandler_def registerCourseOptionHandler_def registerCourseFormatHandler_def
      registerUserProfileFieldHandler_def Let_def split: option.splits sum.splits if_splits)

text \<open>
  Claim C2 as stated fails in its second part: the module handler of the example is stored
  under the module name \<^verbatim>\<open>certificate\<close>, not under the unique name of the handler.
\<close>

theorem stored_key_counterexample:
  "getHandlerUniqueName examplePluginEnv examplePlugin ''view'' = ''mod_certificate_view''
   \<and> sitePluginHandlers (registerHandler examplePluginEnv examplePlugin ''view'' exampleSchema emptyWorld)
        ''mod_certificate_view'' = None
   \<and> sitePluginHandlers (registerHandler examplePluginEnv examplePlugin ''view'' exampleSchema emptyWorld)
        ''certificate''
       = Some \<lparr>hdPlugin = examplePlugin, hdHandlerName = ''view'', hdHandlerSchema = exampleSchema,
               hdInitResult = emptyResult\<rparr>"
  by (simp add: register_defs plugin_example_defs)

text \<open>
  Whatever the unique name of a handler is, it cannot be the key in general: for one plugin
  and one handler name the module delegate and the course format delegate return different
  identifiers.
\<close>

lemma registerInDelegate_keys_differ:
  "fst (registerInDelegate env (pl\<lparr>component := ''mod_format_x''\<rparr>) n
          (sc\<lparr>delegate := Some ''CoreCourseModuleDelegate'', displaydata := JBool True\<rparr>) r w)
   \<noteq> fst (registerInDelegate env (pl\<lparr>component := ''mod_format_x''\<rparr>) n
          (sc\<lparr>delegate := Some ''CoreCourseFormatDelegate''\<rparr>) r w)"
  by (simp add: registerInDelegate_def registerModuleHandler_def registerCourseFormatHandler_def Let_def)

text \<open>
  Claim C2, amended. The handler's data (plugin, handler name, schema as the registration
  left it, init result) is stored exactly when the init method has not failed and the
  registration function has returned an identifier that is not empty, and it is stored under
  that identifier: the unique name of the handler for the main menu, user profile and course
  option delegates, and the plugin's component without \<^verbatim>\<open>mod_\<close>, \<^verbatim>\<open>format_\<close> or
  \<^verbatim>\<open>profilefield_\<close> for the module, course format and profile field delegates.
\<close>

theorem registerHandler_stores:
  "sitePluginHandlers (registerHandler env pl n sc w) =
     (case executeHandlerInit env pl sc of
        Inl err \<Rightarrow> sitePluginHandlers w
      | Inr r \<Rightarrow>
          (case registerInDelegate env pl n sc r w of
             (ident, sc1, w3) \<Rightarrow>
               (case ident of
                  None \<Rightarrow> sitePluginHandlers w
                | Some u \<Rightarrow>
                    if u = [] then sitePluginHandlers w
                    else (sitePluginHandlers w)
                           (u \<mapsto> \<lparr>hdPlugin = pl, hdHandlerName = n,
                                  hdHandlerSchema = sc1, hdInitResult = r\<rparr>))))
   \<and> (\<forall>r u. fst (registerInDelegate env pl n sc r w) = Some u \<longrightarrow>
         ((delegate sc = Some ''CoreMainMenuDelegate'' \<or> delegate sc = Some ''CoreUserDelegate''
            \<or> delegate sc = Some ''CoreCourseOptionsDelegate'')
          \<and> u = getHandlerUniqueName env pl n)
       \<or> (delegate sc = Some ''CoreCourseModuleDelegate'' \<and> u = replaceFirst ''mod_'' (component pl))
       \<or> (delegate sc = Some ''CoreCourseFormatDelegate'' \<and> u = replaceFirst ''format_'' (component pl))
       \<or> (delegate sc = Some ''CoreUserProfileFieldDelegate''
           \<and> u = replaceFirst ''profilefield_'' (component pl)))"
proof -
  have store: "sitePluginHandlers (registerHandler env pl n sc w) =
     (case executeHandlerInit env pl sc of
        Inl err \<Rightarrow> sitePluginHandlers w
      | Inr r \<Rightarrow>
          (case registerInDelegate env pl n sc r w of
             (ident, sc1, w3) \<Rightarrow>
               (case ident of
                  None \<Rightarrow> sitePluginHandlers w
                | Some u \<Rightarrow>
                    if u = [] then sitePluginHandlers w
                    else (sitePluginHandlers w)
                           (u \<mapsto> \<lparr>hdPlugin = pl, hdHandlerName = n,
                                  hdHandlerSchema = sc1, hdInitResult = r\<rparr>))))"
  proof (cases "executeHandlerInit env pl sc")
    case (Inl e)
    then have "sameRegistries w (registerHandler env pl n sc w)"
      by (rule registerHandler_init_fails)
    with Inl show ?thesis by (simp add: sameRegistries_def)
  next
    case (Inr r)
    from registerHandler_init_ok [OF Inr, of w n] obtain w2 where
      w2: "sameRegistries w w2" and
      eq: "registerHandler env pl n sc w =
             (case registerInDelegate env pl n sc r w2 of
                (uniqueName, sc1, w3) \<Rightarrow>
                  (case uniqueName of
                     None \<Rightarrow> w3
                   | Some u \<Rightarrow>
                       if u = [] then w3
                       else setSitePluginHandler u
                              \<lparr>hdPlugin = pl, hdHandlerName = n,
                               hdHandlerSchema = sc1, hdInitResult = r\<rparr> w3))"
      by blast
    obtain ident sc1 w3 where r2: "registerInDelegate env pl n sc r w2 = (ident, sc1, w3)"
      by (cases "registerInDelegate env pl n sc r w2") auto
    obtain w3' where r1: "registerInDelegate env pl n sc r w = (ident, sc1, w3')"
      using registerInDelegate_ident [of env pl n sc r w2 w] r2
      by (cases "registerInDelegate env pl n sc r w") auto
    have h3: "sitePluginHandlers w3 = sitePluginHandlers w"
      using registerInDelegate_handlers [of env pl n sc r w2] r2 w2
      by (simp add: sameRegistries_def)
    show ?thesis
      by (simp add: Inr eq r1 r2 h3 setSitePluginHandler_def split: option.split)
  qed
  from store registerInDelegate_key [of env pl n sc _ w] show ?thesis by blast
qed

theorem registerHandler_stores_witness:
  "sitePluginHandlers (registerHandler examplePluginEnv examplePlugin ''view'' exampleSchema emptyWorld)
     = [''certificate'' \<mapsto> \<lparr>hdPlugin = examplePlugin, hdHandlerName = ''view'',
                             hdHandlerSchema = exampleSchema, hdInitResult = emptyResult\<rparr>]"
proof -
  have i: "executeHandlerInit examplePluginEnv examplePlugin exampleSchema = Inr emptyResult"
    by (simp add: executeHandlerInit_def exampleSchema_def)
  have r: "fst (registerInDelegate examplePluginEnv examplePlugin ''view'' exampleSchema emptyResult emptyWorld)
             = Some ''certificate''"
     "fst (snd (registerInDelegate examplePluginEnv examplePlugin ''view'' exampleSchema emptyResult emptyWorld))
             = exampleSchema"
    by (simp_all add: registerInDelegate_def registerModuleHandler_def Let_def exampleSchema_def
        examplePlugin_def)
  have e: "sitePluginHandlers emptyWorld = Map.empty"
    by (simp add: emptyWorld_def)
  from registerHandler_stores [of examplePluginEnv examplePlugin "''view''" exampleSchema emptyWorld]
  show ?thesis
    using r by (simp add: i e split: prod.splits)
qed

subsection \<open>The prefetch handler of a module\<close>

text \<open>
  Claim C8 as stated fails: a module handler without \<^verbatim>\<open>displaydata\<close> is ignored, and no
  prefetch handler is registered although \<^verbatim>\<open>offlinefunctions\<close> has a key.
\<close>

theorem registerModuleHandler_prefetch_counterexample:
  "truthy (offlinefunctions (exampleSchema\<lparr>displaydata := JUndefined\<rparr>))
   \<and> keyCount (offlinefunctions (exampleSchema\<lparr>displaydata := JUndefined\<rparr>)) = 1
   \<and> registerModuleHandler examplePluginEnv examplePlugin ''view''
        (exampleSchema\<lparr>displaydata := JUndefined\<rparr>) emptyResult emptyWorld = (None, emptyWorld)"
  by (simp add: registerModuleHandler_def exampleSchema_def)

text \<open>
  Claim C8, amended. For a module handler with \<^verbatim>\<open>displaydata\<close>, \<^verbatim>\<open>registerModuleHandler\<close>
  registers the module handler in the module delegate and, exactly when
  \<^verbatim>\<open>offlinefunctions\<close> is truthy and has at least one key, a prefetch handler in the
  prefetch delegate, a seventh registry beside the six of the switch. Without
  \<^verbatim>\<open>displaydata\<close> nothing is registered. Nothing else of the world changes.
\<close>

theorem registerModuleHandler_prefetch:
  "(truthy (displaydata sc) \<longrightarrow>
      fst (registerModuleHandler env pl n sc r w) = Some (replaceFirst ''mod_'' (component pl))
      \<and> moduleDelegate (snd (registerModuleHandler env pl n sc r w))
          = moduleDelegate w @ [ModuleHandler (getHandlerUniqueName env pl n)
                                  (replaceFirst ''mod_'' (component pl)) sc]
      \<and> prefetchDelegate (snd (registerModuleHandler env pl n sc r w))
          = prefetchDelegate w
            @ (if truthy (offlinefunctions sc) \<and> keyCount (offlinefunctions sc) \<noteq> 0
               then [ModulePrefetchHandler (component pl) (getHandlerUniqueName env pl n)
                       (replaceFirst ''mod_'' (component pl)) sc]
               else []))
   \<and> (\<not> truthy (displaydata sc) \<longrightarrow> registerModuleHandler env pl n sc r w = (None, w))
   \<and> (prefetchDelegate (snd (registerModuleHandler env pl n sc r w)) \<noteq> prefetchDelegate w
        \<longleftrightarrow> truthy (displaydata sc) \<and> truthy (offlinefunctions sc) \<and> keyCount (offlinefunctions sc) \<noteq> 0)
   \<and> (snd (registerModuleHandler env pl n sc r w))
        \<lparr>moduleDelegate := moduleDelegate w, prefetchDelegate := prefetchDelegate w\<rparr> = w"
  by (simp add: registerModuleHandler_def Let_def)

theorem registerModuleHandler_prefetch_witness:
  "prefetchDelegate (snd (registerModuleHandler examplePluginEnv examplePlugin ''view''
        exampleSchema emptyResult emptyWorld))
     = [ModulePrefetchHandler ''mod_certificate'' ''mod_certificate_view'' ''certificate'' exampleSchema]
   \<and> prefetchDelegate (snd (registerModuleHandler examplePluginEnv examplePlugin ''view''
        (exampleSchema\<lparr>offlinefunctions := JObj []\<rparr>) emptyResult emptyWorld)) = []
   \<and> registerModuleHandler examplePluginEnv examplePlugin ''view''
        (exampleSchema\<lparr>displaydata := JNull\<rparr>) emptyResult emptyWorld = (None, emptyWorld)"
  using registerModuleHandler_prefetch [of exampleSchema examplePluginEnv examplePlugin "''view''" emptyResult emptyWorld]
        registerModuleHandler_prefetch [of "exampleSchema\<lparr>offlinefunctions := JObj []\<rparr>" examplePluginEnv examplePlugin "''view''" emptyResult emptyWorld]
        registerModuleHandler_prefetch [of "exampleSchema\<lparr>displaydata := JNull\<rparr>" examplePluginEnv examplePlugin "''view''" emptyResult emptyWorld]
  by (simp add: plugin_example_defs)

end
